theory Spec2Isabelle
  imports Complex_Main
begin

section \<open>Faults, calendar stamps and the observable world\<close>

text \<open>
  The three source files are embedded as functions over an explicit world: the files on
  disk and a trace of the externally visible actions (calls to the remote client, fields
  written into the remote form, sleeps, console diagnostics, file removals).
  A Python exception that leaves a function is a value \<open>Inl e\<close>; a normal return is
  \<open>Inr v\<close>. Python floats are idealised as reals throughout: \<open>max\<close>, \<open>min\<close>,
  comparisons and doubling are exact on floats, the remainder \<open>%\<close> and the products of
  the time-of-day computation are exact only up to float rounding.
\<close>

datatype error =
  ValueError | TypeError | IndexError | OverflowError | FileNotFoundError
  | WebDriverException | TimeoutException | RequestException

record datetime =
  year :: int
  month :: int
  day :: int
  hour :: int
  minute :: int
  second :: int

datatype fillval = Num real | Stamp datetime

datatype event =
    Submit real                \<comment> \<open>a call of \<open>_run_iri_profile_selenium\<close>, with its timeout\<close>
  | Launched                   \<comment> \<open>\<open>webdriver.Chrome(...)\<close> returned a driver\<close>
  | Quit                       \<comment> \<open>\<open>driver.quit()\<close>\<close>
  | Filled string fillval      \<comment> \<open>\<open>safe_fill(name, value)\<close> wrote a form field\<close>
  | VersionClicked
  | TimeTypeSelected
  | CoordTypeSelected string
  | Clicked                    \<comment> \<open>\<open>btn.click()\<close> on the submit button\<close>
  | Forced                     \<comment> \<open>the form's submit event dispatched by script\<close>
  | Fetched string             \<comment> \<open>\<open>requests.get\<close> on the link's target\<close>
  | Slept real                 \<comment> \<open>\<open>time.sleep(seconds)\<close>\<close>
  | Warned string              \<comment> \<open>a diagnostic line (\<open>print\<close>, \<open>display.warning\<close>, \<open>display.error\<close>)\<close>
  | Removed string             \<comment> \<open>\<open>os.remove(path)\<close>\<close>

record world =
  files :: "string \<rightharpoonup> string"
  trace :: "event list"
  calls :: nat                 \<comment> \<open>browser sessions consumed so far\<close>

definition emit :: "event \<Rightarrow> world \<Rightarrow> world" where
  "emit e w = w\<lparr>trace := trace w @ [e]\<rparr>"

definition say :: "bool \<Rightarrow> string \<Rightarrow> world \<Rightarrow> world" where
  \<comment> \<open>\<open>if info: print(msg)\<close>\<close>
  "say verbose msg w = (if verbose then emit (Warned msg) w else w)"

definition write_file :: "string \<Rightarrow> string \<Rightarrow> world \<Rightarrow> world" where
  "write_file path text w = w\<lparr>files := (files w)(path \<mapsto> text)\<rparr>"

text \<open>Sequencing of steps that may raise: the first fault stops the rest.\<close>

type_synonym 'a action = "world \<Rightarrow> (error + 'a) \<times> world"

definition andthen :: "'a action \<Rightarrow> ('a \<Rightarrow> 'b action) \<Rightarrow> 'b action" where
  "andthen m k w = (case m w of (Inl e, w') \<Rightarrow> (Inl e, w') | (Inr x, w') \<Rightarrow> k x w')"

definition done_with :: "'a \<Rightarrow> 'a action" where
  "done_with x w = (Inr x, w)"

definition raise :: "error \<Rightarrow> 'a action" where
  "raise e w = (Inl e, w)"

definition effect :: "(world \<Rightarrow> world) \<Rightarrow> unit action" where
  "effect f w = (Inr (), f w)"


section \<open>Text primitives of the Python runtime\<close>

definition isspace :: "char \<Rightarrow> bool" where
  \<comment> \<open>\<open>str.isspace\<close> and the pattern class \<open>\s\<close> on ASCII text\<close>
  "isspace c \<longleftrightarrow> (let n = of_char c :: nat in (9 \<le> n \<and> n \<le> 13) \<or> (28 \<le> n \<and> n \<le> 32))"

definition isdigit :: "char \<Rightarrow> bool" where
  \<comment> \<open>the pattern class \<open>\d\<close> on ASCII text\<close>
  "isdigit c \<longleftrightarrow> (let n = of_char c :: nat in 48 \<le> n \<and> n \<le> 57)"

definition strip :: "string \<Rightarrow> string" where
  "strip s = rev (dropWhile isspace (rev (dropWhile isspace s)))"

definition lower_char :: "char \<Rightarrow> char" where
  "lower_char c = (let n = of_char c :: nat in if 65 \<le> n \<and> n \<le> 90 then char_of (n + 32) else c)"

definition lower :: "string \<Rightarrow> string" where
  "lower s = map lower_char s"


section \<open>RemoteModelClient: one browser session (\<open>_run_iri_profile_selenium\<close>)\<close>

text \<open>
  The browser and the remote service are outside the repository. A \<open>session\<close> says how
  they answer during one attempt: every driver or network call of the source that can raise
  has a field telling whether it does. Calls with no field (building the options, reading
  the page source, the script that opens the results tab) are taken to succeed.
\<close>

datatype radio = Present | Absent | Broken
datatype button = Enabled | Disabled | Unlocatable

record session =
  chrome_starts :: bool                \<comment> \<open>\<open>webdriver.Chrome(...)\<close> returns\<close>
  page_loads :: bool                   \<comment> \<open>\<open>driver.get(IRI_BASE_URL)\<close> returns\<close>
  field_fills :: "string \<Rightarrow> bool"       \<comment> \<open>\<open>find_element(By.NAME, name)\<close> and the setter script return\<close>
  version_radio :: radio               \<comment> \<open>a matching radio input exists / none / the lookup raises\<close>
  time_type_selects :: bool
  coord_type_selects :: bool
  error_shown :: "nat \<Rightarrow> bool"          \<comment> \<open>the validation-error element is present at poll k\<close>
  submit_button :: "nat \<Rightarrow> button"      \<comment> \<open>state of the submit button at poll k\<close>
  click_returns :: bool
  forced_submit_returns :: bool
  result_indicator :: bool             \<comment> \<open>the result link appears within the 60 s wait\<close>
  raw_link :: "string option"          \<comment> \<open>href of the link labelled Raw Output / Download\<close>
  fetch :: "string \<Rightarrow> string option"     \<comment> \<open>body of the fetched artifact, None if the fetch raises\<close>
  pre_text :: "string option"          \<comment> \<open>text of the first \<open>pre\<close> element of the result page\<close>

record query =
  date_time :: datetime
  longitude :: real
  latitude :: real
  min_alt :: real
  max_alt :: real
  step_alt :: real
  model_version :: string
  output_filename :: string
  timeout :: real
  time_type :: string
  coord_type :: string
  info :: bool

definition pymod :: "real \<Rightarrow> real \<Rightarrow> real" where
  \<comment> \<open>Python's \<open>x % y\<close> for \<open>y > 0\<close>, on reals\<close>
  "pymod x y = x - y * of_int \<lfloor>x / y\<rfloor>"

definition correct_latitude :: "real \<Rightarrow> real" where
  \<comment> \<open>lines 44-45\<close>
  "correct_latitude lat0 =
     (let lat1 = (if lat0 < -90 then -90 else lat0)
      in if lat1 > 90 then 90 else lat1)"

definition correct_longitude :: "real \<Rightarrow> real" where
  \<comment> \<open>lines 46-47\<close>
  "correct_longitude lon0 =
     (let lon1 = (if lon0 < 0 then lon0 + 360 else lon0)
      in if lon1 > 360 then pymod lon1 360 else lon1)"

definition lat_val :: "query \<Rightarrow> real" where
  "lat_val q = max (-89.9) (min 89.9 (correct_latitude (latitude q)))"

definition lon_val :: "query \<Rightarrow> real" where
  "lon_val q = pymod (correct_longitude (longitude q)) 360"

definition min_alt_val :: "query \<Rightarrow> real" where
  "min_alt_val q = max 0 (min 2000 (min_alt q))"

definition max_alt_val :: "query \<Rightarrow> real" where
  "max_alt_val q = max 0 (min 2000 (max_alt q))"

definition step_alt_val :: "query \<Rightarrow> real" where
  "step_alt_val q = max 1 (min 500 (step_alt q))"

definition safe_fill :: "session \<Rightarrow> bool \<Rightarrow> string \<Rightarrow> fillval \<Rightarrow> unit action" where
  \<comment> \<open>no handler of its own: a failing lookup or script raises out of it\<close>
  "safe_fill s verbose name v =
     (if field_fills s name
      then effect (\<lambda>w. say verbose (''  '' @ name) (emit (Filled name v) w))
      else raise WebDriverException)"

definition fill_fields :: "session \<Rightarrow> query \<Rightarrow> unit action" where
  "fill_fields s q =
     andthen (safe_fill s (info q) ''lat'' (Num (lat_val q))) (\<lambda>_.
     andthen (safe_fill s (info q) ''lon'' (Num (lon_val q))) (\<lambda>_.
     andthen (safe_fill s (info q) ''start'' (Num (min_alt_val q))) (\<lambda>_.
     andthen (safe_fill s (info q) ''stop'' (Num (max_alt_val q))) (\<lambda>_.
     andthen (safe_fill s (info q) ''step'' (Num (step_alt_val q))) (\<lambda>_.
     safe_fill s (info q) ''datetime'' (Stamp (date_time q)))))))"

definition select_version :: "session \<Rightarrow> query \<Rightarrow> unit action" where
  \<comment> \<open>lines 96-110: its own \<open>try\<close>, every failure ends in a warning\<close>
  "select_version s q =
     (case version_radio s of
        Present \<Rightarrow> effect (\<lambda>w. say (info q) (''  model = '' @ model_version q) (emit VersionClicked w))
      | Absent \<Rightarrow> effect (say (info q) ''  [warn] Error in selecting model'')
      | Broken \<Rightarrow> effect (say (info q) ''  [warn] Error in selecting model: ''))"

definition coord_text :: "string \<Rightarrow> string" where
  "coord_text ct =
     (let k = lower ct in
      if k = ''geom'' then ''Geomagnetic''
      else if k = ''geog'' then ''Geographic''
      else if k = ''geomagnetic'' then ''Geomagnetic''
      else if k = ''geographic'' then ''Geographic''
      else ''Geomagnetic'')"

definition select_time_coord :: "session \<Rightarrow> query \<Rightarrow> unit action" where
  \<comment> \<open>lines 113-122: its own \<open>try\<close>, every failure ends in a warning\<close>
  "select_time_coord s q =
     (if \<not> time_type_selects s
      then effect (say (info q) ''  [warn] Error in selecting time or coordinate types'')
      else if \<not> coord_type_selects s
      then effect (\<lambda>w. say (info q) ''  [warn] Error in selecting time or coordinate types''
                         (say (info q) ''  time type = UTC'' (emit TimeTypeSelected w)))
      else effect (\<lambda>w. say (info q) (''  coordinate = '' @ coord_text (coord_type q))
                         (emit (CoordTypeSelected (coord_text (coord_type q)))
                           (say (info q) ''  time type = UTC'' (emit TimeTypeSelected w)))))"

fun settle_validation :: "session \<Rightarrow> query \<Rightarrow> nat list \<Rightarrow> unit action" where
  \<comment> \<open>lines 125-129, over \<open>range(10)\<close>\<close>
  "settle_validation s q [] = done_with ()"
| "settle_validation s q (k # ks) =
     (if \<not> error_shown s k
      then effect (say (info q) ''All input parameters are valid.'')
      else andthen (effect (emit (Slept (1/2)))) (\<lambda>_. settle_validation s q ks))"

fun press_submit :: "session \<Rightarrow> query \<Rightarrow> nat list \<Rightarrow> unit action" where
  \<comment> \<open>lines 133-142, over \<open>range(30)\<close>; the empty list is the loop's \<open>else\<close>\<close>
  "press_submit s q [] =
     andthen (effect (say (info q) ''  [warn] Submit button timeout. Forcing submit via JS.'')) (\<lambda>_.
       if forced_submit_returns s then effect (emit Forced) else raise WebDriverException)"
| "press_submit s q (i # is) =
     (case submit_button s i of
        Unlocatable \<Rightarrow> raise WebDriverException
      | Enabled \<Rightarrow>
          andthen (effect (say (info q) ''Submit button enabled. Clicking...'')) (\<lambda>_.
            if click_returns s then effect (emit Clicked) else raise WebDriverException)
      | Disabled \<Rightarrow> andthen (effect (emit (Slept 1))) (\<lambda>_. press_submit s q is))"

definition save_result :: "session \<Rightarrow> query \<Rightarrow> int action" where
  \<comment> \<open>lines 163-182\<close>
  "save_result s q =
     (case (case raw_link s of None \<Rightarrow> None | Some h \<Rightarrow> if h = [] then None else Some h) of
        Some h \<Rightarrow>
          andthen (effect (say (info q) (''Downloading data from: '' @ h))) (\<lambda>_.
            case fetch s h of
              None \<Rightarrow> raise RequestException
            | Some body \<Rightarrow>
                andthen (effect (\<lambda>w. write_file (output_filename q) body (emit (Fetched h) w))) (\<lambda>_.
                andthen (effect (say (info q) ''Success: Saved'')) (\<lambda>_. done_with 0)))
      | None \<Rightarrow>
          (case pre_text s of
             Some t \<Rightarrow>
               if length (strip t) > 100
               then andthen (effect (write_file (output_filename q) t)) (\<lambda>_.
                    andthen (effect (say (info q) ''Success: Saved (via pre tag)'')) (\<lambda>_. done_with 0))
               else andthen (effect (say (info q) ''Error: Result content not found.'')) (\<lambda>_. done_with 1)
           | None \<Rightarrow> andthen (effect (say (info q) ''Error: Result content not found.'')) (\<lambda>_. done_with 1)))"

definition drive_form :: "session \<Rightarrow> query \<Rightarrow> int action" where
  \<comment> \<open>the \<open>try\<close> body after the driver exists, lines 59-182\<close>
  "drive_form s q =
     andthen (if page_loads s then done_with () else raise WebDriverException) (\<lambda>_.
     andthen (effect (say (info q) ''--- inputing parameters ---'')) (\<lambda>_.
     andthen (fill_fields s q) (\<lambda>_.
     andthen (select_version s q) (\<lambda>_.
     andthen (select_time_coord s q) (\<lambda>_.
     andthen (settle_validation s q [0..<10]) (\<lambda>_.
     andthen (effect (say (info q) ''--- Monitoring Submit Button ---'')) (\<lambda>_.
     andthen (press_submit s q [0..<30]) (\<lambda>_.
     andthen (effect (say (info q) ''Form submitted. Waiting for results...'')) (\<lambda>_.
     andthen (if result_indicator s then done_with () else raise TimeoutException) (\<lambda>_.
     andthen (effect (emit (Slept 2))) (\<lambda>_.
     save_result s q)))))))))))"

definition run_iri_profile_selenium :: "(nat \<Rightarrow> session) \<Rightarrow> query \<Rightarrow> world \<Rightarrow> int \<times> world" where
  \<comment> \<open>\<open>try\<close> / \<open>except Exception: return 1\<close> / \<open>finally: if driver: driver.quit()\<close>\<close>
  "run_iri_profile_selenium remote q w0 =
     (let s = remote (calls w0);
          w1 = say (info q) ''--- Downloading IRI model ---''
                 (emit (Submit (timeout q)) (w0\<lparr>calls := Suc (calls w0)\<rparr>))
      in if \<not> chrome_starts s
         then (1, say (info q) ''Exception in _run_iri_profile_selenium'' w1)
         else (case drive_form s q (emit Launched w1) of
                 (Inr status, w2) \<Rightarrow> (status, emit Quit w2)
               | (Inl e, w2) \<Rightarrow>
                   (1, emit Quit (say (info q) ''Exception in _run_iri_profile_selenium'' w2))))"


section \<open>RemoteModelClient: the retry wrapper (\<open>run_iri_profile\<close>)\<close>

record retry_args =
  base :: query                \<comment> \<open>the arguments handed on; its \<open>timeout\<close> is the caller's\<close>
  max_retries :: int

fun attempts :: "(nat \<Rightarrow> session) \<Rightarrow> retry_args \<Rightarrow> nat list \<Rightarrow> world \<Rightarrow> int \<times> world" where
  \<comment> \<open>the \<open>for attempt in range(max_retries)\<close> loop and what follows it\<close>
  "attempts remote a [] w =
     (1, say (info (base a)) ''[FATAL] Failed to retrieve IRI profile'' w)"
| "attempts remote a (attempt # rest) w =
     (let w1 = (if attempt > 0 then say (info (base a)) ''RETRY ATTEMPT'' w else w);
          (status, w2) = run_iri_profile_selenium remote ((base a)\<lparr>timeout := timeout (base a) * 2\<rparr>) w1
      in if status = 0 then (0, w2)
         else if int attempt < max_retries a - 1
         then attempts remote a rest
                (emit (Slept (5 * (real attempt + 1))) (say (info (base a)) ''Waiting before next attempt...'' w2))
         else attempts remote a rest w2)"

definition run_iri_profile :: "(nat \<Rightarrow> session) \<Rightarrow> retry_args \<Rightarrow> world \<Rightarrow> int \<times> world" where
  "run_iri_profile remote a w = attempts remote a [0..<nat (max_retries a)] w"


section \<open>Calendar arithmetic of \<open>datetime\<close> and \<open>timedelta\<close>\<close>

definition is_leap :: "int \<Rightarrow> bool" where
  "is_leap y \<longleftrightarrow> y mod 4 = 0 \<and> (y mod 100 \<noteq> 0 \<or> y mod 400 = 0)"

definition days_in_year :: "int \<Rightarrow> int" where
  "days_in_year y = (if is_leap y then 366 else 365)"

definition days_in_month :: "int \<Rightarrow> nat \<Rightarrow> int" where
  "days_in_month y m =
     (if m = 2 then (if is_leap y then 29 else 28)
      else if m = 4 \<or> m = 6 \<or> m = 9 \<or> m = 11 then 30 else 31)"

definition days_before_month :: "int \<Rightarrow> nat \<Rightarrow> int" where
  "days_before_month y m = sum_list (map (days_in_month y) [1..<m])"

definition yday :: "datetime \<Rightarrow> int" where
  \<comment> \<open>the 1-based day of the year of a stamp\<close>
  "yday d = days_before_month (year d) (nat (month d)) + day d"

function year_of_offset :: "int \<Rightarrow> int \<Rightarrow> int \<times> int" where
  \<comment> \<open>the year and 0-based day in it that lie \<open>k\<close> days after 1 January of year \<open>y\<close>\<close>
  "year_of_offset y k =
     (if k < 0 then year_of_offset (y - 1) (k + days_in_year (y - 1))
      else if k \<ge> days_in_year y then year_of_offset (y + 1) (k - days_in_year y)
      else (y, k))"
  by pat_completeness auto
termination
  by (relation "measure (\<lambda>(y, k). if k < 0 then nat (366 - k) else nat k)")
     (auto simp: days_in_year_def split: if_splits)

function month_of_offset :: "int \<Rightarrow> nat \<Rightarrow> int \<Rightarrow> nat \<times> int" where
  \<comment> \<open>the month and 1-based day that lie \<open>k\<close> days after the first of month \<open>m\<close>\<close>
  "month_of_offset y m k =
     (if m < 12 \<and> k \<ge> days_in_month y m then month_of_offset y (Suc m) (k - days_in_month y m)
      else (m, k + 1))"
  by pat_completeness auto
termination
  by (relation "measure (\<lambda>(y, m, k). 12 - m)") auto

definition plus_timedelta :: "datetime \<Rightarrow> int \<Rightarrow> int \<Rightarrow> error + datetime" where
  \<comment> \<open>\<open>stamp + timedelta(days=days, seconds=secs)\<close>; years outside 1..9999 overflow\<close>
  "plus_timedelta d days secs =
     (let total = hour d * 3600 + minute d * 60 + second d + secs;
          tod = total mod 86400;
          (y, k) = year_of_offset (year d) (yday d - 1 + days + total div 86400);
          (m, dd) = month_of_offset y 1 k
      in if y < 1 \<or> y > 9999 then Inl OverflowError
         else Inr \<lparr>year = y, month = int m, day = dd,
                   hour = tod div 3600, minute = tod mod 3600 div 60, second = tod mod 60\<rparr>)"

definition new_year :: "int \<Rightarrow> error + datetime" where
  \<comment> \<open>\<open>datetime(year, 1, 1)\<close>\<close>
  "new_year y =
     (if y < 1 \<or> y > 9999 then Inl ValueError
      else Inr \<lparr>year = y, month = 1, day = 1, hour = 0, minute = 0, second = 0\<rparr>)"

definition digit_char :: "int \<Rightarrow> char" where
  "digit_char n = char_of (48 + nat n)"

definition pad2 :: "int \<Rightarrow> string" where
  "pad2 n = [digit_char (n div 10 mod 10), digit_char (n mod 10)]"

definition pad4 :: "int \<Rightarrow> string" where
  "pad4 n = [digit_char (n div 1000 mod 10), digit_char (n div 100 mod 10),
             digit_char (n div 10 mod 10), digit_char (n mod 10)]"

definition strftime :: "datetime \<Rightarrow> string" where
  \<comment> \<open>the format \<open>%Y-%m-%d %H:%M:%S\<close>, the year written with four digits\<close>
  "strftime d = pad4 (year d) @ ''-'' @ pad2 (month d) @ ''-'' @ pad2 (day d) @ '' '' @
                pad2 (hour d) @ '':'' @ pad2 (minute d) @ '':'' @ pad2 (second d)"


section \<open>Numbers read from text\<close>

definition digit_val :: "char \<Rightarrow> int" where
  "digit_val c = int (of_char c) - 48"

definition int_of_digits :: "string \<Rightarrow> int" where
  \<comment> \<open>\<open>int(s)\<close> on a string of decimal digits\<close>
  "int_of_digits s = foldl (\<lambda>a c. 10 * a + digit_val c) 0 s"

definition py_trunc :: "real \<Rightarrow> int" where
  \<comment> \<open>\<open>int(x)\<close> on a float: towards zero\<close>
  "py_trunc x = (if x \<ge> 0 then \<lfloor>x\<rfloor> else \<lceil>x\<rceil>)"

definition py_round :: "real \<Rightarrow> int" where
  \<comment> \<open>\<open>round(x)\<close>: to the nearest integer, a tie to the even one\<close>
  "py_round x =
     (let f = \<lfloor>x\<rfloor>; d = x - of_int f
      in if d < 1/2 then f else if d > 1/2 then f + 1 else if even f then f else f + 1)"

text \<open>
  The conversions of the runtime and of the external helper modules are parameters of the
  embedding: \<open>pyfloat\<close> is \<open>float(token)\<close> (None where it raises ValueError), the others
  are the two time conversions of \<open>common.time\<close>, taken to return for every input.
\<close>

record collaborators =
  pyfloat :: "string \<Rightarrow> real option"
  str_to_unix :: "string \<Rightarrow> real"
  unix_to_datetime :: "real \<Rightarrow> datetime"


section \<open>ProfileParser (\<open>extract_iri_profile_data\<close>)\<close>

fun split_on :: "char \<Rightarrow> string \<Rightarrow> string list" where
  \<comment> \<open>\<open>s.split(c)\<close>\<close>
  "split_on c [] = [[]]"
| "split_on c (x # xs) =
     (if x = c then [] # split_on c xs
      else (case split_on c xs of l # ls \<Rightarrow> (x # l) # ls | [] \<Rightarrow> [[x]]))"

fun collapse_from :: "bool \<Rightarrow> string \<Rightarrow> string" where
  \<comment> \<open>\<open>re.sub(r'\s+', ' ', s)\<close>; the flag says that the current run already gave its space\<close>
  "collapse_from b [] = []"
| "collapse_from b (c # cs) =
     (if isspace c then (if b then collapse_from True cs else CHR '' '' # collapse_from True cs)
      else c # collapse_from False cs)"

fun split_from :: "string \<Rightarrow> string \<Rightarrow> string list" where
  \<comment> \<open>\<open>s.split()\<close>; the first argument is the token being read\<close>
  "split_from tok [] = (if tok = [] then [] else [tok])"
| "split_from tok (c # cs) =
     (if isspace c then (if tok = [] then split_from [] cs else tok # split_from [] cs)
      else split_from (tok @ [c]) cs)"

definition cleaned_line :: "string \<Rightarrow> string" where
  "cleaned_line line = collapse_from False (strip line)"

definition match_header_at :: "string \<Rightarrow> (string \<times> string \<times> string) option" where
  \<comment> \<open>the pattern \<open>(\d{4})/\s*(-?\d+)/\s*([\d\.]+)UT\<close> anchored at the start of \<open>s\<close>\<close>
  "match_header_at s =
     (let y = take 4 s in
      if length y = 4 \<and> list_all isdigit y then
        (case drop 4 s of
           c1 # r1 \<Rightarrow>
             if c1 = CHR ''/'' then
               (let r2 = dropWhile isspace r1;
                    sign = (case r2 of c # _ \<Rightarrow> if c = CHR ''-'' then ''-'' else [] | [] \<Rightarrow> []);
                    r3 = drop (length sign) r2;
                    ds = takeWhile isdigit r3
                in if ds = [] then None
                   else (case dropWhile isdigit r3 of
                           c2 # r4 \<Rightarrow>
                             if c2 = CHR ''/'' then
                               (let r5 = dropWhile isspace r4;
                                    us = takeWhile (\<lambda>c. isdigit c \<or> c = CHR ''.'') r5
                                in if us \<noteq> [] \<and> take 2 (drop (length us) r5) = ''UT''
                                   then Some (y, sign @ ds, us) else None)
                             else None
                         | [] \<Rightarrow> None))
             else None
         | [] \<Rightarrow> None)
      else None)"

fun search_header :: "string \<Rightarrow> (string \<times> string \<times> string) option" where
  \<comment> \<open>\<open>re.search\<close>: the leftmost position at which the pattern matches\<close>
  "search_header [] = None"
| "search_header (c # cs) =
     (case match_header_at (c # cs) of Some g \<Rightarrow> Some g | None \<Rightarrow> search_header cs)"

definition resolve_time :: "collaborators \<Rightarrow> string \<Rightarrow> string \<Rightarrow> string \<Rightarrow> error + datetime" where
  \<comment> \<open>lines 52-76\<close>
  "resolve_time env year_str doy_str ut_hour_str =
     (let yr = int_of_digits year_str;
          doy = int_of_digits (strip (dropWhile (\<lambda>c. c = CHR ''-'') doy_str))
      in case pyfloat env ut_hour_str of
             None \<Rightarrow> Inl ValueError
           | Some ut_hour \<Rightarrow>
               (case new_year yr of
                  Inl e \<Rightarrow> Inl e
                | Inr jan1 \<Rightarrow>
                    (case plus_timedelta jan1 (doy - 1) 0 of
                       Inl e \<Rightarrow> Inl e
                     | Inr date_obj \<Rightarrow>
                         let hours = py_trunc ut_hour;
                             minutes_float = (ut_hour - of_int hours) * 60;
                             minutes = py_trunc minutes_float;
                             seconds_float = (minutes_float - of_int minutes) * 60;
                             seconds = py_round seconds_float
                         in plus_timedelta (date_obj\<lparr>hour := 0, minute := 0, second := 0\<rparr>) 0
                              (hours * 3600 + minutes * 60 + seconds))))"

definition header_time :: "collaborators \<Rightarrow> string list \<Rightarrow> error + string option" where
  \<comment> \<open>lines 44-79: \<open>time_str\<close>, None when it stays unset\<close>
  "header_time env lines =
     (if length lines \<ge> 4 then
        (case search_header (lines ! 3) of
           None \<Rightarrow> Inr None
         | Some (year_str, doy_str, ut_hour_str) \<Rightarrow>
             (case resolve_time env year_str doy_str ut_hour_str of
                Inl e \<Rightarrow> Inl e
              | Inr d \<Rightarrow> Inr (Some (strftime d))))
      else Inr None)"

definition data_row :: "collaborators \<Rightarrow> string \<Rightarrow> string list option" where
  \<comment> \<open>one turn of the loop of lines 89-126: the tokens of an accepted line\<close>
  "data_row env line =
     (let cleaned = cleaned_line line in
      if cleaned = [] then None
      else let parts = split_from [] cleaned in
           if length parts < 10 then None
           else (case pyfloat env (hd parts) of None \<Rightarrow> None | Some H \<Rightarrow> Some parts))"

definition extracted_data :: "collaborators \<Rightarrow> string list \<Rightarrow> string list list" where
  "extracted_data env lines = List.map_filter (data_row env) lines"

definition float_array :: "collaborators \<Rightarrow> string list list \<Rightarrow> error + real list list" where
  \<comment> \<open>\<open>np.array(rows, dtype=float)\<close> on a non-empty list of token rows\<close>
  "float_array env rows =
     (if (\<exists>r \<in> set rows. length r \<noteq> length (hd rows)) then Inl ValueError
      else if (\<exists>r \<in> set rows. \<exists>t \<in> set r. pyfloat env t = None) then Inl ValueError
      else Inr (map (map (\<lambda>t. the (pyfloat env t))) rows))"

definition keys :: "string list" where
  "keys = [''altitude'', ''Ne'', ''Ne/NmF2'', ''Tn'', ''Ti'', ''Te'', ''O+'', ''N+'', ''H+'',
           ''He+'', ''O2+'', ''NO+'', ''Clust'', ''TEC'', ''t/%'']"

definition unit_factor :: "string \<Rightarrow> real" where
  \<comment> \<open>lines 161-171\<close>
  "unit_factor key =
     (if key = ''altitude'' then 1000
      else if key = ''Ne'' then 1000000
      else if key \<in> set [''O+'', ''N+'', ''H+'', ''He+'', ''O2+'', ''NO+''] then 1 / 10
      else if key \<in> set [''Clust'', ''TEC'', ''t/%''] then 10 ^ 16
      else 1)"

record profile =
  time_str :: string
  time_unix :: real
  columns :: "(string \<times> real list) list"

definition column :: "real list list \<Rightarrow> nat \<Rightarrow> error + real list" where
  \<comment> \<open>\<open>a[:, i]\<close> on a rank-2 array with at least one row\<close>
  "column a i = (if i < length (hd a) then Inr (map (\<lambda>r. r ! i) a) else Inl IndexError)"

fun take_columns :: "real list list \<Rightarrow> (nat \<times> string) list \<Rightarrow> error + (string \<times> real list) list" where
  \<comment> \<open>the loop of lines 157-158 over \<open>enumerate(keys)\<close>\<close>
  "take_columns a [] = Inr []"
| "take_columns a ((i, key) # rest) =
     (case column a i of
        Inl e \<Rightarrow> Inl e
      | Inr c \<Rightarrow> (case take_columns a rest of Inl e \<Rightarrow> Inl e | Inr cs \<Rightarrow> Inr ((key, c) # cs)))"

definition to_mksa :: "(string \<times> real list) list \<Rightarrow> (string \<times> real list) list" where
  "to_mksa cols = map (\<lambda>(key, c). (key, map (\<lambda>v. v * unit_factor key) c)) cols"

definition build_profile :: "collaborators \<Rightarrow> string \<Rightarrow> string list list \<Rightarrow> error + profile option" where
  \<comment> \<open>lines 129-173\<close>
  "build_profile env ts rows =
     (if rows = [] then Inr None
      else case float_array env rows of
             Inl e \<Rightarrow> Inl e
           | Inr a \<Rightarrow>
               (case take_columns a (enumerate 0 keys) of
                  Inl e \<Rightarrow> Inl e
                | Inr cols \<Rightarrow>
                    Inr (Some \<lparr>time_str = ts, time_unix = str_to_unix env ts, columns = to_mksa cols\<rparr>)))"

definition endswith :: "string \<Rightarrow> string \<Rightarrow> bool" where
  "endswith s suffix \<longleftrightarrow> length suffix \<le> length s \<and> drop (length s - length suffix) s = suffix"

definition extract_iri_profile_data ::
  "collaborators \<Rightarrow> (string \<rightharpoonup> string) \<Rightarrow> string \<Rightarrow> error + profile option" where
  "extract_iri_profile_data env fs filepath =
     (case fs filepath of
        None \<Rightarrow> Inl ValueError
      | Some file_content \<Rightarrow>
          if \<not> endswith filepath ''txt'' then Inl ValueError
          else let lines = split_on (CHR 0x0A) file_content in
               (case header_time env lines of
                  Inl e \<Rightarrow> Inl e
                | Inr None \<Rightarrow> Inr None
                | Inr (Some ts) \<Rightarrow> build_profile env ts (extracted_data env lines)))"


section \<open>SeriesAggregator (\<open>getdata\<close>)\<close>

record ndarray =
  shape :: "nat list"
  cells :: "real list"         \<comment> \<open>the elements in row-major order\<close>

record transform =
  \<comment> \<open>\<open>erg_analysis.coordinate.geom2rmlatmlt\<close>, outside the repository: given the times and the
      three slices it raises or returns one (altitude km, latitude, longitude) per entry\<close>
  geom2rmlatmlt :: "real list \<Rightarrow> ndarray \<Rightarrow> ndarray \<Rightarrow> ndarray \<Rightarrow> error + (real \<times> real \<times> real) list"

definition len_nd :: "ndarray \<Rightarrow> error + nat" where
  \<comment> \<open>\<open>len(a)\<close>\<close>
  "len_nd a = (case shape a of [] \<Rightarrow> Inl TypeError | n # _ \<Rightarrow> Inr n)"

definition shape_error :: "ndarray \<Rightarrow> error + bool" where
  \<comment> \<open>the condition of line 35: \<open>a.ndim != 2 and a.shape[1] != 3\<close>\<close>
  "shape_error a =
     (if length (shape a) \<noteq> 2
      then (if 1 < length (shape a) then Inr (shape a ! 1 \<noteq> 3) else Inl IndexError)
      else Inr False)"

definition take_axis1 :: "ndarray \<Rightarrow> nat \<Rightarrow> error + ndarray" where
  \<comment> \<open>\<open>a[:, j]\<close>\<close>
  "take_axis1 a j =
     (case shape a of
        n0 # n1 # rest \<Rightarrow>
          if j < n1
          then (let inner = prod_list rest
                in Inr \<lparr>shape = n0 # rest,
                        cells = concat (map (\<lambda>i. take inner (drop ((i * n1 + j) * inner) (cells a))) [0..<n0])\<rparr>)
          else Inl IndexError
      | _ \<Rightarrow> Inl IndexError)"

definition c_fmod :: "real \<Rightarrow> real \<Rightarrow> real" where
  \<comment> \<open>\<open>np.fmod\<close>: the remainder has the sign of the dividend\<close>
  "c_fmod x y = x - y * of_int (py_trunc (x / y))"

fun argmin :: "real list \<Rightarrow> nat" where
  \<comment> \<open>\<open>np.argmin\<close>: the first index of the least element\<close>
  "argmin [] = 0"
| "argmin [x] = 0"
| "argmin (x # y # ys) = (let j = argmin (y # ys) in if x \<le> (y # ys) ! j then 0 else Suc j)"

record sample =
  s_time :: real
  s_altitude :: real
  s_values :: "real list"      \<comment> \<open>Ne, O+, N+, H+, He+, O2+, NO+ at the matched row\<close>

definition vars :: "string list" where
  "vars = [''Ne'', ''O+'', ''N+'', ''H+'', ''He+'', ''O2+'', ''NO+'']"

definition output_filename_tmp :: string where
  "output_filename_tmp = ''.temporal_iri_profile_output.txt''"

definition subscript :: "profile \<Rightarrow> string \<Rightarrow> real list" where
  \<comment> \<open>\<open>dict_data[key]\<close> for a key the parser always sets\<close>
  "subscript p key = (case map_of (columns p) key of Some c \<Rightarrow> c | None \<Rightarrow> [])"

definition step_query :: "datetime \<Rightarrow> real \<Rightarrow> real \<Rightarrow> real \<Rightarrow> bool \<Rightarrow> retry_args" where
  \<comment> \<open>the call of lines 76-84 with the defaults of \<open>run_iri_profile\<close>\<close>
  "step_query dt lon_i lat_i res_alt verbose =
     \<lparr>base = \<lparr>date_time = dt, longitude = lon_i, latitude = lat_i, min_alt = 0, max_alt = 2000,
               step_alt = res_alt, model_version = ''IRI 2020'', output_filename = output_filename_tmp,
               timeout = 30, time_type = ''UTC'', coord_type = ''geom'', info = verbose\<rparr>,
      max_retries = 3\<rparr>"

record loop_ctx =
  c_env :: collaborators
  c_remote :: "nat \<Rightarrow> session"
  c_times :: "real list"
  c_alt :: "real option list"   \<comment> \<open>metres; None is NaN\<close>
  c_lat :: "real list"
  c_lon :: "real list"
  c_res_alt :: real
  c_info :: bool

fun timesteps :: "loop_ctx \<Rightarrow> nat list \<Rightarrow> sample list \<Rightarrow> world \<Rightarrow> (error + sample list option) \<times> world" where
  \<comment> \<open>the loop of lines 68-94; \<open>Inr None\<close> is the \<open>return\<close> of line 87\<close>
  "timesteps c [] acc w = (Inr (Some acc), w)"
| "timesteps c (i # rest) acc w =
     (if i \<ge> length (c_lon c) \<or> i \<ge> length (c_lat c) \<or> i \<ge> length (c_alt c) then (Inl IndexError, w)
      else case c_alt c ! i of
        None \<Rightarrow> timesteps c rest acc w
      | Some alt_i \<Rightarrow>
          (case run_iri_profile (c_remote c)
                  (step_query (unix_to_datetime (c_env c) (c_times c ! i)) (c_lon c ! i) (c_lat c ! i)
                     (c_res_alt c) (c_info c)) w of
             (ret, w1) \<Rightarrow>
               if ret \<noteq> 0 then (Inr None, emit (Warned ''run_iri_profile failed'') w1)
               else (case extract_iri_profile_data (c_env c) (files w1) output_filename_tmp of
                       Inl e \<Rightarrow> (Inl e, w1)
                     | Inr None \<Rightarrow> (Inl TypeError, w1)
                     | Inr (Some dict_data) \<Rightarrow>
                         (let alt_data = subscript dict_data ''altitude'';
                              idx_to_get = argmin (map (\<lambda>a. \<bar>a - alt_i\<bar>) alt_data)
                          in timesteps c rest
                               (acc @ [\<lparr>s_time = c_times c ! i, s_altitude = alt_i,
                                        s_values = map (\<lambda>v. subscript dict_data v ! idx_to_get) vars\<rparr>])
                               w1))))"

definition os_remove :: "string \<Rightarrow> unit action" where
  "os_remove path w =
     (if path \<in> dom (files w)
      then (Inr (), emit (Removed path) (w\<lparr>files := (files w)(path := None)\<rparr>))
      else (Inl FileNotFoundError, w))"

definition getdata ::
  "collaborators \<Rightarrow> transform \<Rightarrow> (nat \<Rightarrow> session) \<Rightarrow> real list \<Rightarrow> ndarray \<Rightarrow> real \<Rightarrow> bool \<Rightarrow> world
     \<Rightarrow> (error + sample list option) \<times> world" where
  "getdata env tr remote times' rmlatmlt res_alt verbose w =
     (case len_nd rmlatmlt of
        Inl e \<Rightarrow> (Inl e, w)
      | Inr n \<Rightarrow>
          if length times' \<noteq> n
          then (Inr None, emit (Warned ''The lengths of times and rmlatmlt must be same'') w)
          else (case shape_error rmlatmlt of
                  Inl e \<Rightarrow> (Inl e, w)
                | Inr True \<Rightarrow> (Inr None, emit (Warned ''rmlatmlt shape error'') w)
                | Inr False \<Rightarrow>
                    (case (take_axis1 rmlatmlt 0, take_axis1 rmlatmlt 1, take_axis1 rmlatmlt 2) of
                       (Inr r, Inr mlat, Inr mlt) \<Rightarrow>
                         (case geom2rmlatmlt tr times' r mlat mlt of
                            Inl e \<Rightarrow> (Inl e, w)
                          | Inr geo \<Rightarrow>
                              (case timesteps
                                      \<lparr>c_env = env, c_remote = remote, c_times = times',
                                       c_alt = map (\<lambda>(a, la, lo). if a > 2000 then None else Some (a * 1000)) geo,
                                       c_lat = map (\<lambda>(a, la, lo). la) geo,
                                       c_lon = map (\<lambda>(a, la, lo). c_fmod (lo + 360) 360) geo,
                                       c_res_alt = res_alt, c_info = verbose\<rparr>
                                      [0..<length times'] [] w of
                                 (Inl e, w1) \<Rightarrow> (Inl e, w1)
                               | (Inr None, w1) \<Rightarrow> (Inr None, w1)
                               | (Inr (Some rows), w1) \<Rightarrow>
                                   (case os_remove output_filename_tmp w1 of
                                      (Inl e, w2) \<Rightarrow> (Inl e, w2)
                                    | (Inr u, w2) \<Rightarrow>
                                        (Inr (Some rows), emit (Warned ''Deleted temporal file'') w2))))
                     | _ \<Rightarrow> (Inl IndexError, w))))"


section \<open>Notions used to state the properties\<close>

text \<open>
  What a run adds to the trace, when two steps cannot be told apart by their status and files,
  the proleptic Gregorian day count against which the calendar arithmetic is measured, and
  what is observed of a run of the aggregator.
\<close>

definition inner :: "event \<Rightarrow> bool" where
  "inner e = (case e of Submit t \<Rightarrow> False | Removed p \<Rightarrow> False | _ \<Rightarrow> True)"

definition grows :: "world \<Rightarrow> world \<Rightarrow> bool" where
  "grows w w' \<longleftrightarrow> calls w' = calls w \<and> (\<exists>es. trace w' = trace w @ es \<and> list_all inner es)"

definition tame :: "'a action \<Rightarrow> bool" where
  "tame m \<longleftrightarrow> (\<forall>w. grows w (snd (m w)))"

fun submit_timeouts :: "event list \<Rightarrow> real list" where
  "submit_timeouts [] = []"
| "submit_timeouts (e # es) = (case e of Submit t \<Rightarrow> t # submit_timeouts es | _ \<Rightarrow> submit_timeouts es)"

definition submits :: "world \<Rightarrow> real list" where
  "submits w = submit_timeouts (trace w)"

definition doubled :: "retry_args \<Rightarrow> query" where
  "doubled a = (base a)\<lparr>timeout := timeout (base a) * 2\<rparr>"

fun fills :: "event list \<Rightarrow> (string \<times> fillval) list" where
  "fills [] = []"
| "fills (e # es) = (case e of Filled n v \<Rightarrow> (n, v) # fills es | _ \<Rightarrow> fills es)"

definition same :: "'a action \<Rightarrow> 'a action \<Rightarrow> bool" where
  "same m m' \<longleftrightarrow> (\<forall>w w'. files w = files w' \<longrightarrow>
       fst (m w) = fst (m' w') \<and> files (snd (m w)) = files (snd (m' w')))"

definition field_names :: "string list" where
  "field_names = [''lat'', ''lon'', ''start'', ''stop'', ''step'', ''datetime'']"

definition rest_alike :: "session \<Rightarrow> session \<Rightarrow> bool" where
  "rest_alike s s' \<longleftrightarrow> chrome_starts s = chrome_starts s' \<and> page_loads s = page_loads s' \<and>
     field_fills s = field_fills s' \<and> error_shown s = error_shown s' \<and>
     submit_button s = submit_button s' \<and> click_returns s = click_returns s' \<and>
     forced_submit_returns s = forced_submit_returns s' \<and> result_indicator s = result_indicator s' \<and>
     raw_link s = raw_link s' \<and> fetch s = fetch s' \<and> pre_text s = pre_text s'"

definition calm :: "world \<Rightarrow> world \<Rightarrow> bool" where
  "calm w w' \<longleftrightarrow> files w' = files w \<and>
     (\<exists>es. trace w' = trace w @ es \<and> Clicked \<notin> set es \<and> Forced \<notin> set es)"

definition days_before_year :: "int \<Rightarrow> int" where
  "days_before_year y = 365 * (y - 1) + (y - 1) div 4 - (y - 1) div 100 + (y - 1) div 400"

definition ordinal :: "datetime \<Rightarrow> int" where
  "ordinal d = days_before_year (year d) + yday d"

definition second_of_day :: "datetime \<Rightarrow> int" where
  "second_of_day d = hour d * 3600 + minute d * 60 + second d"

definition clock_seconds :: "real \<Rightarrow> int" where
  "clock_seconds h =
     (let hours = py_trunc h;
          minutes_float = (h - of_int hours) * 60;
          minutes = py_trunc minutes_float
      in hours * 3600 + minutes * 60 + py_round ((minutes_float - of_int minutes) * 60))"

definition ragged :: "string list list \<Rightarrow> bool" where
  "ragged rows \<longleftrightarrow> (\<exists>r \<in> set rows. length r \<noteq> length (hd rows))"

definition unreadable :: "collaborators \<Rightarrow> string list list \<Rightarrow> bool" where
  "unreadable env rows \<longleftrightarrow> (\<exists>r \<in> set rows. \<exists>t \<in> set r. pyfloat env t = None)"

definition observe :: "(error + sample list option) \<times> world \<Rightarrow>
    (error + sample list option) \<times> event list \<times> string option" where
  "observe r = (fst r, trace (snd r), files (snd r) output_filename_tmp)"


section \<open>Sample sessions, reports and coordinate arrays\<close>

text \<open>
  Concrete inputs at which the properties are evaluated. \<open>decimal\<close> stands in for
  \<open>float\<close> on plain decimal literals; the header and the rows have the layout of the
  service's report.
\<close>

definition dead_session :: session where
  "dead_session = \<lparr>chrome_starts = False, page_loads = False, field_fills = (\<lambda>_. False),
     version_radio = Absent, time_type_selects = False, coord_type_selects = False,
     error_shown = (\<lambda>_. True), submit_button = (\<lambda>_. Disabled), click_returns = False,
     forced_submit_returns = False, result_indicator = False, raw_link = None,
     fetch = (\<lambda>_. None), pre_text = None\<rparr>"

definition noon :: datetime where
  "noon = \<lparr>year = 2012, month = 2, day = 11, hour = 12, minute = 0, second = 0\<rparr>"

definition sample_query :: query where
  "sample_query = \<lparr>date_time = noon, longitude = 135, latitude = 35, min_alt = 0, max_alt = 2000,
     step_alt = 50, model_version = ''IRI 2020'', output_filename = ''out.txt'', timeout = 30,
     time_type = ''UTC'', coord_type = ''geom'', info = False\<rparr>"

definition fresh :: world where
  "fresh = \<lparr>files = Map.empty, trace = [], calls = 0\<rparr>"

definition live_session :: session where
  "live_session = \<lparr>chrome_starts = True, page_loads = True, field_fills = (\<lambda>_. True),
     version_radio = Present, time_type_selects = True, coord_type_selects = True,
     error_shown = (\<lambda>_. False), submit_button = (\<lambda>_. Enabled), click_returns = True,
     forced_submit_returns = True, result_indicator = True, raw_link = Some ''raw.txt'',
     fetch = (\<lambda>_. Some ''body''), pre_text = None\<rparr>"

definition stubborn_session :: session where
  "stubborn_session = live_session\<lparr>version_radio := Broken, time_type_selects := False, coord_type_selects := False\<rparr>"

definition blocked_session :: session where
  "blocked_session = live_session\<lparr>field_fills := (\<lambda>n. n \<noteq> ''lat'')\<rparr>"

definition decimal :: "string \<Rightarrow> real option" where
  "decimal s =
     (let body = (case s of c # r \<Rightarrow> if c = CHR ''-'' \<or> c = CHR ''+'' then r else s | [] \<Rightarrow> s);
          sgn = (case s of c # r \<Rightarrow> if c = CHR ''-'' then - 1 else 1 | [] \<Rightarrow> 1);
          ip = takeWhile isdigit body;
          rest = dropWhile isdigit body;
          fp = (case rest of c # r \<Rightarrow> if c = CHR ''.'' then r else rest | [] \<Rightarrow> [])
      in if (rest = [] \<or> hd rest = CHR ''.'') \<and> list_all isdigit fp \<and> (ip \<noteq> [] \<or> fp \<noteq> [])
         then Some (sgn * (of_int (int_of_digits ip) + of_int (int_of_digits fp) / 10 ^ length fp))
         else None)"

definition sample_env :: collaborators where
  "sample_env = \<lparr>pyfloat = decimal, str_to_unix = (\<lambda>_. 0), unix_to_datetime = (\<lambda>_. noon)\<rparr>"

definition sample_header :: string where
  "sample_header = ''yyyy/mmdd(or -ddd)/hh.h):2012/ -42/10.0UT  geog Lat/Long/Alt=  35.0/ 135.0/ 100.0''"

fun text_of :: "string list \<Rightarrow> string" where
  "text_of [] = []"
| "text_of [l] = l"
| "text_of (l # m # ls) = l @ CHR 0x0A # text_of (m # ls)"

definition sample_report :: "string list \<Rightarrow> string" where
  "sample_report rows = text_of ([''IRI profile'', '''', '''', sample_header, '' H   ELECTRON DENSITY''] @ rows)"

definition row_100 :: string where
  "row_100 = ''  100.0   1000 0.5  200  300  400  900   0   0   0  50  50  -1   1.5  30''"

definition row_200 :: string where
  "row_200 = ''  200.0   2000 1.0  210  310  410  123   0   0   0  40  60  -1   2.5  40''"

definition row_short :: string where
  "row_short = ''  100.0   1000 0.5  200  300  400  900   0   0   0''"

definition row_stars :: string where
  "row_stars = ''  100.0   1000 0.5  200  300  400  900   0   0   0  50  50  -1   ****  30''"

definition row_long :: string where
  "row_long = ''  200.0   2000 1.0  210  310  410  123   0   0   0  40  60  -1   2.5  40  7''"

definition sample_table :: profile where
  "sample_table = \<lparr>time_str = ''2012-02-11 10:00:00'', time_unix = 0,
          columns =
            [(''altitude'', [100000, 200000]),
             (''Ne'', [1000000000, 2000000000]), (''Ne/NmF2'', [1 / 2, 1]),
             (''Tn'', [200, 210]), (''Ti'', [300, 310]),
             (''Te'', [400, 410]), (''O+'', [90, 123 / 10]),
             (''N+'', [0, 0]), (''H+'', [0, 0]), (''He+'', [0, 0]),
             (''O2+'', [5, 4]), (''NO+'', [5, 6]),
             (''Clust'', [- 10000000000000000, - 10000000000000000]),
             (''TEC'', [15000000000000000, 25000000000000000]),
             (''t/%'', [300000000000000000, 400000000000000000])]\<rparr>"

definition sample_transform :: transform where
  "sample_transform = \<lparr>geom2rmlatmlt = (\<lambda>ts r mlat mlt. Inr (map (\<lambda>t. (120, 35, 135)) ts))\<rparr>"

definition report_session :: session where
  "report_session = live_session\<lparr>fetch := (\<lambda>_. Some (sample_report [row_100, row_200]))\<rparr>"

definition stale :: world where
  "stale = \<lparr>files = [output_filename_tmp \<mapsto> ''left over''], trace = [], calls = 0\<rparr>"

definition one_by_three :: ndarray where
  "one_by_three = \<lparr>shape = [1, 3], cells = [1.02, 30, 12]\<rparr>"

definition two_by_three :: ndarray where
  "two_by_three = \<lparr>shape = [2, 3], cells = [1.02, 30, 12, 1.02, 31, 12]\<rparr>"

definition one_by_two :: ndarray where
  "one_by_two = \<lparr>shape = [1, 2], cells = [1.02, 30]\<rparr>"

definition one_by_four :: ndarray where
  "one_by_four = \<lparr>shape = [1, 4], cells = [1.02, 30, 12, 7]\<rparr>"

definition flat_three :: ndarray where
  "flat_three = \<lparr>shape = [3], cells = [1.02, 30, 12]\<rparr>"

definition sample_ctx :: loop_ctx where
  "sample_ctx = \<lparr>c_env = sample_env, c_remote = (\<lambda>_. live_session), c_times = [0],
     c_alt = [Some 120000], c_lat = [35], c_lon = [135], c_res_alt = 50, c_info = False\<rparr>"


section \<open>Properties of the remote client\<close>

lemma grows_refl: "grows w w"
  by (simp add: grows_def)

lemma grows_trans: "grows a b \<Longrightarrow> grows b c \<Longrightarrow> grows a c"
  by (auto simp: grows_def)

lemma grows_emit: "inner e \<Longrightarrow> grows w w' \<Longrightarrow> grows w (emit e w')"
  by (auto simp add: grows_def emit_def)

lemma grows_say: "grows w w' \<Longrightarrow> grows w (say v msg w')"
  by (simp add: say_def grows_emit inner_def)

lemma grows_write_file: "grows w w' \<Longrightarrow> grows w (write_file p t w')"
  by (simp add: grows_def write_file_def)

lemmas grows_intros = grows_refl grows_emit grows_say grows_write_file

lemma tame_done: "tame (done_with x)"
  by (simp add: tame_def done_with_def grows_refl)

lemma tame_raise: "tame (raise e)"
  by (simp add: tame_def raise_def grows_refl)

lemma tame_effect: "(\<And>w. grows w (f w)) \<Longrightarrow> tame (effect f)"
  by (simp add: tame_def effect_def)

lemma tame_andthen: 
  assumes "tame m" and "\<And>x. tame (k x)" shows "tame (andthen m k)"
  unfolding tame_def
proof
  fix w
  obtain r w1 where m: "m w = (r, w1)" by (cases "m w")
  have g1: "grows w w1" using assms(1) m unfolding tame_def by (metis snd_conv)
  show "grows w (snd (andthen m k w))"
  proof (cases r)
    case (Inl e)
    then show ?thesis using m g1 by (simp add: andthen_def)
  next
    case (Inr x)
    have "grows w1 (snd (k x w1))" using assms(2) unfolding tame_def by blast
    then show ?thesis using m g1 Inr by (simp add: andthen_def grows_trans)
  qed
qed

lemma tame_safe_fill: "tame (safe_fill s v name x)"
  by (simp add: safe_fill_def tame_effect tame_raise grows_intros inner_def)

lemma tame_fill_fields: "tame (fill_fields s q)"
  unfolding fill_fields_def by (intro tame_andthen tame_safe_fill)

lemma tame_select_version: "tame (select_version s q)"
  by (cases "version_radio s") (simp_all add: select_version_def tame_effect grows_intros inner_def)

lemma tame_select_time_coord: "tame (select_time_coord s q)"
  by (simp add: select_time_coord_def tame_effect grows_intros inner_def)

lemma tame_settle_validation: "tame (settle_validation s q ks)"
  by (induction ks) (simp_all add: tame_done tame_effect tame_andthen grows_intros inner_def)

lemma tame_press_submit: "tame (press_submit s q ks)"
proof (induction ks)
  case Nil
  show ?case by (simp add: tame_raise tame_effect tame_andthen grows_intros inner_def)
next
  case (Cons i ks)
  then show ?case 
    by (cases "submit_button s i") (simp_all add: tame_raise tame_effect tame_andthen grows_intros inner_def)
qed

lemma tame_save_result: "tame (save_result s q)"
  by (simp add: save_result_def tame_done tame_raise tame_effect tame_andthen grows_intros inner_def
      split: option.splits)

lemma tame_drive_form: "tame (drive_form s q)"
  unfolding drive_form_def
  by (intro tame_andthen tame_fill_fields tame_select_version tame_select_time_coord tame_settle_validation
        tame_press_submit tame_save_result)
     (simp_all add: tame_done tame_raise tame_effect grows_intros inner_def)

lemma selenium_trace:
  assumes "run_iri_profile_selenium remote q w = (r, w')"
  shows "calls w' = Suc (calls w) \<and>
         (\<exists>es. trace w' = trace w @ Submit (timeout q) # es \<and> list_all inner es)"
proof -
  let ?s = "remote (calls w)"
  let ?w1 = "say (info q) ''--- Downloading IRI model ---''
                 (emit (Submit (timeout q)) (w\<lparr>calls := Suc (calls w)\<rparr>))"
  have base: "calls ?w1 = Suc (calls w) \<and> (\<exists>es. trace ?w1 = trace w @ Submit (timeout q) # es \<and> list_all inner es)"
    by (simp add: say_def emit_def inner_def)
  have step: "grows ?w1 w'"
  proof (cases "chrome_starts ?s")
    case False
    then show ?thesis using assms 
      by (auto simp add: run_iri_profile_selenium_def Let_def grows_intros)
  next
    case True
    obtain r2 w2 where d: "drive_form ?s q (emit Launched ?w1) = (r2, w2)"
      by (cases "drive_form ?s q (emit Launched ?w1)")
    have "grows (emit Launched ?w1) w2" using tame_drive_form[of ?s q] d unfolding tame_def by (metis snd_conv)
    moreover have "grows ?w1 (emit Launched ?w1)"
      by (simp add: grows_intros inner_def)
    ultimately have g: "grows ?w1 w2"
      by (rule grows_trans[rotated])
    show ?thesis using assms True d g
      by (cases r2) (auto simp add: run_iri_profile_selenium_def Let_def grows_intros inner_def)
  qed
  show ?thesis using base step by (auto simp: grows_def)
qed

lemma submit_timeouts_append: "submit_timeouts (xs @ ys) = submit_timeouts xs @ submit_timeouts ys"
  by (induction xs) (auto split: event.splits)

lemma submit_timeouts_inner: "list_all inner es \<Longrightarrow> submit_timeouts es = []"
  by (induction es) (auto simp: inner_def split: event.splits)

lemma submits_selenium:
  "submits (snd (run_iri_profile_selenium remote q w)) = submits w @ [timeout q]"
proof -
  obtain r w' where e: "run_iri_profile_selenium remote q w = (r, w')"
    by (cases "run_iri_profile_selenium remote q w")
  from selenium_trace[OF e] obtain es where
    t: "trace w' = trace w @ Submit (timeout q) # es" and i: "list_all inner es" by blast
  show ?thesis using e t i by (simp add: submits_def submit_timeouts_append submit_timeouts_inner)
qed

lemma submits_say [simp]: "submits (say v m w) = submits w"
  by (simp add: submits_def say_def emit_def submit_timeouts_append)

lemma submits_slept [simp]: "submits (emit (Slept r) w) = submits w"
  by (simp add: submits_def emit_def submit_timeouts_append)

lemma attempts_submits:
  "\<exists>n \<le> length ks. submits (snd (attempts remote a ks w)) = submits w @ replicate n (timeout (base a) * 2)"
proof (induction ks arbitrary: w)
  case Nil
  show ?case by simp
next
  case (Cons k ks)
  let ?w1 = "if k > 0 then say (info (base a)) ''RETRY ATTEMPT'' w else w"
  let ?q = "(base a)\<lparr>timeout := timeout (base a) * 2\<rparr>"
  obtain r w2 where e: "run_iri_profile_selenium remote ?q ?w1 = (r, w2)"
    by (cases "run_iri_profile_selenium remote ?q ?w1")
  have s2: "submits w2 = submits w @ [timeout (base a) * 2]"
    using submits_selenium[of remote ?q ?w1] e by simp
  show ?case
  proof (cases "r = 0")
    case True
    then have "submits (snd (attempts remote a (k # ks) w)) = submits w @ replicate 1 (timeout (base a) * 2)"
      using e s2 by simp
    then show ?thesis by (intro exI[of _ 1]) simp
  next
    case False
    let ?w3 = "if int k < max_retries a - 1
               then emit (Slept (5 * (real k + 1))) (say (info (base a)) ''Waiting before next attempt...'' w2)
               else w2"
    have eq: "attempts remote a (k # ks) w = attempts remote a ks ?w3"
      using e False by simp
    have s3: "submits ?w3 = submits w @ [timeout (base a) * 2]" using s2 by simp
    from Cons.IH[of ?w3] obtain n where n: "n \<le> length ks"
      "submits (snd (attempts remote a ks ?w3)) = submits ?w3 @ replicate n (timeout (base a) * 2)" by blast
    have "submits (snd (attempts remote a (k # ks) w)) = submits w @ replicate (Suc n) (timeout (base a) * 2)"
      unfolding eq n(2) s3 by simp
    then show ?thesis using n(1) by (intro exI[of _ "Suc n"]) simp
  qed
qed

text \<open>
  Claim C8. With \<open>max_retries = 3\<close> and a browser session that fails on every call,
  \<open>run_iri_profile\<close> calls \<open>_run_iri_profile_selenium\<close> exactly three times, sleeps 5 seconds
  after the first failure and 10 seconds after the second, does not sleep after the third and
  returns 1. An attempt that returns 0 ends the loop at once with result 0, whatever attempts
  were left. Every call made, at most \<open>max_retries\<close> of them, is given twice the caller's
  timeout.
\<close>

theorem run_iri_profile_retry:
  "(max_retries a = 3 \<and> (\<forall>w'. fst (run_iri_profile_selenium remote (doubled a) w') \<noteq> 0) \<longrightarrow>
      run_iri_profile remote a w =
        (1, say (info (base a)) ''[FATAL] Failed to retrieve IRI profile''
             (snd (run_iri_profile_selenium remote (doubled a)
               (say (info (base a)) ''RETRY ATTEMPT''
                 (emit (Slept 10) (say (info (base a)) ''Waiting before next attempt...''
                   (snd (run_iri_profile_selenium remote (doubled a)
                     (say (info (base a)) ''RETRY ATTEMPT''
                       (emit (Slept 5) (say (info (base a)) ''Waiting before next attempt...''
                         (snd (run_iri_profile_selenium remote (doubled a) w)))))))))))))
      \<and> submits (snd (run_iri_profile remote a w)) = submits w @ replicate 3 (timeout (base a) * 2))
   \<and> (fst (run_iri_profile_selenium remote (doubled a)
              (if k > 0 then say (info (base a)) ''RETRY ATTEMPT'' w else w)) = 0 \<longrightarrow>
        attempts remote a (k # rest) w =
          (0, snd (run_iri_profile_selenium remote (doubled a)
              (if k > 0 then say (info (base a)) ''RETRY ATTEMPT'' w else w))))
   \<and> (\<exists>n \<le> nat (max_retries a).
        submits (snd (run_iri_profile remote a w)) = submits w @ replicate n (timeout (base a) * 2))"
proof (intro conjI impI)
  assume h: "max_retries a = 3 \<and> (\<forall>w'. fst (run_iri_profile_selenium remote (doubled a) w') \<noteq> 0)"
  have l: "[0..<3] = [0, 1, 2::nat]" by (simp add: upt_rec)
  show r: "run_iri_profile remote a w =
        (1, say (info (base a)) ''[FATAL] Failed to retrieve IRI profile''
             (snd (run_iri_profile_selenium remote (doubled a)
               (say (info (base a)) ''RETRY ATTEMPT''
                 (emit (Slept 10) (say (info (base a)) ''Waiting before next attempt...''
                   (snd (run_iri_profile_selenium remote (doubled a)
                     (say (info (base a)) ''RETRY ATTEMPT''
                       (emit (Slept 5) (say (info (base a)) ''Waiting before next attempt...''
                         (snd (run_iri_profile_selenium remote (doubled a) w)))))))))))))"
    using h by (simp add: run_iri_profile_def l doubled_def split_beta Let_def)
  show "submits (snd (run_iri_profile remote a w)) = submits w @ replicate 3 (timeout (base a) * 2)"
    unfolding r by (simp add: submits_selenium doubled_def numeral_3_eq_3)
next
  assume "fst (run_iri_profile_selenium remote (doubled a)
              (if k > 0 then say (info (base a)) ''RETRY ATTEMPT'' w else w)) = 0"
  then show "attempts remote a (k # rest) w =
          (0, snd (run_iri_profile_selenium remote (doubled a)
              (if k > 0 then say (info (base a)) ''RETRY ATTEMPT'' w else w)))"
    by (simp add: doubled_def split_beta Let_def)
next
  show "\<exists>n \<le> nat (max_retries a).
        submits (snd (run_iri_profile remote a w)) = submits w @ replicate n (timeout (base a) * 2)"
    using attempts_submits[of "[0..<nat (max_retries a)]" remote a w] by (simp add: run_iri_profile_def)
qed

text \<open>
  The retry theorem at two concrete remotes: one whose browser never starts, one that answers
  at once.
\<close>

theorem run_iri_profile_retry_witness:
  "run_iri_profile (\<lambda>_. dead_session) \<lparr>base = sample_query, max_retries = 3\<rparr> fresh =
     (1, \<lparr>files = Map.empty, trace = [Submit 60, Slept 5, Submit 60, Slept 10, Submit 60], calls = 3\<rparr>)
   \<and> run_iri_profile (\<lambda>_. live_session) \<lparr>base = sample_query, max_retries = 3\<rparr> fresh =
     (0, \<lparr>files = [''out.txt'' \<mapsto> ''body''],
          trace = [Submit 60, Launched, Filled ''lat'' (Num 35), Filled ''lon'' (Num 135),
                   Filled ''start'' (Num 0), Filled ''stop'' (Num 2000), Filled ''step'' (Num 50),
                   Filled ''datetime'' (Stamp noon), VersionClicked, TimeTypeSelected,
                   CoordTypeSelected ''Geomagnetic'', Clicked, Slept 2, Fetched ''raw.txt'', Quit],
          calls = 1\<rparr>)"
proof -
  have dead: "\<And>q w. run_iri_profile_selenium (\<lambda>_. dead_session) q w =
      (1, say (info q) ''Exception in _run_iri_profile_selenium''
        (say (info q) ''--- Downloading IRI model ---'' (emit (Submit (timeout q)) (w\<lparr>calls := Suc (calls w)\<rparr>))))"
    by (simp add: run_iri_profile_selenium_def dead_session_def)
  have h1: "max_retries \<lparr>base = sample_query, max_retries = 3\<rparr> = 3 \<and>
     (\<forall>w'. fst (run_iri_profile_selenium (\<lambda>_. dead_session) (doubled \<lparr>base = sample_query, max_retries = 3\<rparr>) w') \<noteq> 0)"
    by (simp add: dead)
  have live: "run_iri_profile_selenium (\<lambda>_. live_session) (doubled \<lparr>base = sample_query, max_retries = 3\<rparr>) fresh =
      (0, \<lparr>files = [''out.txt'' \<mapsto> ''body''],
          trace = [Submit 60, Launched, Filled ''lat'' (Num 35), Filled ''lon'' (Num 135),
                   Filled ''start'' (Num 0), Filled ''stop'' (Num 2000), Filled ''step'' (Num 50),
                   Filled ''datetime'' (Stamp noon), VersionClicked, TimeTypeSelected,
                   CoordTypeSelected ''Geomagnetic'', Clicked, Slept 2, Fetched ''raw.txt'', Quit],
          calls = 1\<rparr>)"
    by (simp add: run_iri_profile_selenium_def live_session_def doubled_def sample_query_def fresh_def
        drive_form_def andthen_def done_with_def effect_def say_def emit_def fill_fields_def safe_fill_def
        select_version_def select_time_coord_def save_result_def write_file_def upt_rec
        lat_val_def lon_val_def min_alt_val_def max_alt_val_def step_alt_val_def correct_latitude_def
        correct_longitude_def pymod_def coord_text_def lower_def lower_char_def)
  have up: "[0..<3] = [0, Suc 0, 2::nat]" by (simp add: upt_rec)
  from run_iri_profile_retry[of "\<lparr>base = sample_query, max_retries = 3\<rparr>" "\<lambda>_. dead_session" fresh 0 "[]"] h1
  have a: "run_iri_profile (\<lambda>_. dead_session) \<lparr>base = sample_query, max_retries = 3\<rparr> fresh =
     (1, \<lparr>files = Map.empty, trace = [Submit 60, Slept 5, Submit 60, Slept 10, Submit 60], calls = 3\<rparr>)"
    by (simp add: dead doubled_def sample_query_def fresh_def say_def emit_def)
  from run_iri_profile_retry[of "\<lparr>base = sample_query, max_retries = 3\<rparr>" "\<lambda>_. live_session" fresh 0 "[Suc 0, 2]"] live
  have b: "run_iri_profile (\<lambda>_. live_session) \<lparr>base = sample_query, max_retries = 3\<rparr> fresh =
     (0, \<lparr>files = [''out.txt'' \<mapsto> ''body''],
          trace = [Submit 60, Launched, Filled ''lat'' (Num 35), Filled ''lon'' (Num 135),
                   Filled ''start'' (Num 0), Filled ''stop'' (Num 2000), Filled ''step'' (Num 50),
                   Filled ''datetime'' (Stamp noon), VersionClicked, TimeTypeSelected,
                   CoordTypeSelected ''Geomagnetic'', Clicked, Slept 2, Fetched ''raw.txt'', Quit],
          calls = 1\<rparr>)"
    by (simp add: run_iri_profile_def up)
  show ?thesis using a b by simp
qed



lemma fills_append: "fills (xs @ ys) = fills xs @ fills ys"
  by (induction xs) (auto split: event.splits)

lemma fills_say [simp]: "fills (trace (say v m w)) = fills (trace w)"
  by (simp add: say_def emit_def fills_append)




lemma same_done: "same (done_with x) (done_with x)"
  by (simp add: same_def done_with_def)

lemma same_raise: "same (raise e) (raise e)"
  by (simp add: same_def raise_def)

lemma same_effect: "(\<And>w. files (f w) = files w) \<Longrightarrow> (\<And>w. files (g w) = files w) \<Longrightarrow> same (effect f) (effect g)"
  by (simp add: same_def effect_def)

lemma same_write: "same (effect (\<lambda>w. write_file p t (f w))) (effect (\<lambda>w. write_file p t (f w)))"
  if "\<And>w. files (f w) = files w"
  using that by (simp add: same_def effect_def write_file_def)

lemma files_emit [simp]: "files (emit e w) = files w"
  by (simp add: emit_def)

lemma files_say [simp]: "files (say v m w) = files w"
  by (simp add: say_def)

lemma same_andthen:
  assumes "same m m'" and "\<And>x. same (k x) (k' x)"
  shows "same (andthen m k) (andthen m' k')"
  unfolding same_def
proof (intro allI impI)
  fix w w' :: world
  assume f: "files w = files w'"
  obtain r w1 where m: "m w = (r, w1)" by (cases "m w")
  obtain r' w1' where m': "m' w' = (r', w1')" by (cases "m' w'")
  from assms(1) f m m' have rr: "r' = r" and ff: "files w1 = files w1'"
    unfolding same_def by (metis fst_conv, metis snd_conv)
  show "fst (andthen m k w) = fst (andthen m' k' w') \<and>
        files (snd (andthen m k w)) = files (snd (andthen m' k' w'))"
  proof (cases r)
    case (Inl e)
    then show ?thesis using m m' rr ff by (simp add: andthen_def)
  next
    case (Inr x)
    from assms(2)[of x] ff have "fst (k x w1) = fst (k' x w1') \<and> files (snd (k x w1)) = files (snd (k' x w1'))"
      unfolding same_def by blast
    then show ?thesis using m m' rr Inr by (simp add: andthen_def)
  qed
qed

lemma same_safe_fill: "field_fills s = field_fills s' \<Longrightarrow> same (safe_fill s v n x) (safe_fill s' v n x)"
  by (simp add: safe_fill_def same_effect same_raise)

lemma same_fill_fields: "field_fills s = field_fills s' \<Longrightarrow> same (fill_fields s q) (fill_fields s' q)"
  unfolding fill_fields_def by (intro same_andthen same_safe_fill)

lemma same_select_version: "same (select_version s q) (select_version s' q)"
  by (cases "version_radio s"; cases "version_radio s'") (simp_all add: select_version_def same_effect)

lemma same_select_time_coord: "same (select_time_coord s q) (select_time_coord s' q)"
  by (simp add: select_time_coord_def same_effect)

lemma same_settle_validation: "error_shown s = error_shown s' \<Longrightarrow> same (settle_validation s q ks) (settle_validation s' q ks)"
  by (induction ks) (simp_all add: same_done same_effect same_andthen)

lemma same_press_submit:
  "submit_button s = submit_button s' \<Longrightarrow> click_returns s = click_returns s' \<Longrightarrow>
   forced_submit_returns s = forced_submit_returns s' \<Longrightarrow> same (press_submit s q ks) (press_submit s' q ks)"
proof (induction ks)
  case Nil
  then show ?case by (simp add: same_raise same_effect same_andthen)
next
  case (Cons i ks)
  then show ?case
    by (cases "submit_button s' i") (simp_all add: same_raise same_effect same_andthen)
qed

lemma same_save_result:
  "raw_link s = raw_link s' \<Longrightarrow> fetch s = fetch s' \<Longrightarrow> pre_text s = pre_text s' \<Longrightarrow>
   same (save_result s q) (save_result s' q)"
  by (simp add: save_result_def same_done same_raise same_effect same_andthen same_write
      split: option.splits)

lemma same_drive_form: "rest_alike s s' \<Longrightarrow> same (drive_form s q) (drive_form s' q)"
  unfolding drive_form_def rest_alike_def
  by (intro same_andthen same_fill_fields same_select_version same_select_time_coord
        same_settle_validation same_press_submit same_save_result)
     (simp_all add: same_done same_raise same_effect)

lemma selenium_fst:
  "fst (run_iri_profile_selenium remote q w) =
     (if \<not> chrome_starts (remote (calls w)) then 1
      else case fst (drive_form (remote (calls w)) q
                  (emit Launched (say (info q) ''--- Downloading IRI model ---''
                     (emit (Submit (timeout q)) (w\<lparr>calls := Suc (calls w)\<rparr>))))) of
             Inr status \<Rightarrow> status | Inl e \<Rightarrow> 1)"
  by (simp add: run_iri_profile_selenium_def Let_def split: prod.splits sum.splits)

lemma selenium_files:
  "files (snd (run_iri_profile_selenium remote q w)) =
     (if \<not> chrome_starts (remote (calls w)) then files w
      else files (snd (drive_form (remote (calls w)) q
                  (emit Launched (say (info q) ''--- Downloading IRI model ---''
                     (emit (Submit (timeout q)) (w\<lparr>calls := Suc (calls w)\<rparr>)))))))"
  by (simp add: run_iri_profile_selenium_def Let_def split: prod.splits sum.splits)

lemma selenium_alike:
  assumes "rest_alike s s'"
  shows "fst (run_iri_profile_selenium (\<lambda>_. s) q w) = fst (run_iri_profile_selenium (\<lambda>_. s') q w)
       \<and> files (snd (run_iri_profile_selenium (\<lambda>_. s) q w)) = files (snd (run_iri_profile_selenium (\<lambda>_. s') q w))"
proof -
  let ?w1 = "emit Launched (say (info q) ''--- Downloading IRI model ---''
                 (emit (Submit (timeout q)) (w\<lparr>calls := Suc (calls w)\<rparr>)))"
  from same_drive_form[OF assms, of q]
  have "fst (drive_form s q ?w1) = fst (drive_form s' q ?w1)
      \<and> files (snd (drive_form s q ?w1)) = files (snd (drive_form s' q ?w1))"
    unfolding same_def by blast
  moreover have "chrome_starts s = chrome_starts s'" using assms by (simp add: rest_alike_def)
  ultimately show ?thesis by (simp add: selenium_fst selenium_files)
qed

lemma calm_refl: "calm w w"
  by (simp add: calm_def)

lemma calm_trans: "calm a b \<Longrightarrow> calm b c \<Longrightarrow> calm a c"
  by (auto simp: calm_def)

lemma fst_andthen:
  "fst (andthen m k w) = (case fst (m w) of Inl e \<Rightarrow> Inl e | Inr x \<Rightarrow> fst (k x (snd (m w))))"
  by (simp add: andthen_def split: prod.splits sum.splits)

lemma snd_andthen:
  "snd (andthen m k w) = (case fst (m w) of Inl e \<Rightarrow> snd (m w) | Inr x \<Rightarrow> snd (k x (snd (m w))))"
  by (simp add: andthen_def split: prod.splits sum.splits)

lemma calm_andthen:
  assumes "\<And>w. calm w (snd (m w))" and "\<And>x w. calm w (snd (k x w))"
  shows "calm w (snd (andthen m k w))"
proof (cases "fst (m w)")
  case (Inl e)
  then show ?thesis using assms(1) by (simp add: snd_andthen)
next
  case (Inr x)
  then show ?thesis using calm_trans[OF assms(1) assms(2)] by (simp add: snd_andthen)
qed

lemma fst_safe_fill:
  "fst (safe_fill s v n x w) = (if field_fills s n then Inr () else Inl WebDriverException)"
  by (simp add: safe_fill_def effect_def raise_def)

lemma calm_safe_fill: "calm w (snd (safe_fill s v n x w))"
  by (simp add: safe_fill_def effect_def raise_def calm_def say_def emit_def)

lemma calm_fill_fields: "calm w (snd (fill_fields s q w))"
  unfolding fill_fields_def by (intro calm_andthen calm_safe_fill)

lemma fst_fill_fields:
  "fst (fill_fields s q w) =
     (if \<forall>n \<in> set field_names. field_fills s n then Inr () else Inl WebDriverException)"
  by (simp add: fill_fields_def fst_andthen fst_safe_fill field_names_def)

lemma fill_fields_fails:
  assumes "n \<in> set field_names" and "\<not> field_fills s n"
  shows "\<exists>w'. fill_fields s q w = (Inl WebDriverException, w') \<and> files w' = files w \<and>
           (\<exists>es. trace w' = trace w @ es \<and> Clicked \<notin> set es \<and> Forced \<notin> set es)"
proof -
  have "fst (fill_fields s q w) = Inl WebDriverException"
    using assms by (auto simp: fst_fill_fields)
  then have "fill_fields s q w = (Inl WebDriverException, snd (fill_fields s q w))"
    by (metis prod.collapse)
  then show ?thesis using calm_fill_fields[of w s q] unfolding calm_def by blast
qed

lemma drive_form_fill_fails:
  assumes "n \<in> set field_names" and "\<not> field_fills s n"
  shows "\<exists>w'. drive_form s q w = (Inl WebDriverException, w') \<and> files w' = files w \<and>
           (\<exists>es. trace w' = trace w @ es \<and> Clicked \<notin> set es \<and> Forced \<notin> set es)"
proof (cases "page_loads s")
  case False
  then show ?thesis by (simp add: drive_form_def andthen_def raise_def)
next
  case True
  let ?w0 = "say (info q) ''--- inputing parameters ---'' w"
  from fill_fields_fails[OF assms, of q ?w0] obtain w' es where
    f: "fill_fields s q ?w0 = (Inl WebDriverException, w')" "files w' = files w"
       "trace w' = trace ?w0 @ es" "Clicked \<notin> set es" "Forced \<notin> set es"
    by auto
  have d: "drive_form s q w = (Inl WebDriverException, w')"
    using True f(1) by (simp add: drive_form_def andthen_def done_with_def effect_def)
  have "\<exists>es'. trace w' = trace w @ es' \<and> Clicked \<notin> set es' \<and> Forced \<notin> set es'"
    using f(3,4,5) by (cases "info q") (simp_all add: say_def emit_def)
  then show ?thesis using d f(2) by simp
qed

text \<open>
  Claim C5, as the code has it. The selection of the model version and of the time and
  coordinate types are best-effort: two sessions that differ only in how these selections
  behave end with the same status and the same files. A form field that cannot be written is
  different: the attempt ends with status 1, no file is written, and the submit button is
  neither clicked nor forced.
\<close>

theorem form_steps:
  "(rest_alike s s' \<longrightarrow>
      fst (run_iri_profile_selenium (\<lambda>_. s) q w) = fst (run_iri_profile_selenium (\<lambda>_. s') q w)
    \<and> files (snd (run_iri_profile_selenium (\<lambda>_. s) q w)) = files (snd (run_iri_profile_selenium (\<lambda>_. s') q w)))
   \<and> (n \<in> set field_names \<and> \<not> field_fills s n \<longrightarrow>
        fst (run_iri_profile_selenium (\<lambda>_. s) q w) = 1
      \<and> files (snd (run_iri_profile_selenium (\<lambda>_. s) q w)) = files w
      \<and> (\<exists>es. trace (snd (run_iri_profile_selenium (\<lambda>_. s) q w)) = trace w @ es
              \<and> Clicked \<notin> set es \<and> Forced \<notin> set es))"
proof (intro conjI impI)
  assume "rest_alike s s'"
  then show "fst (run_iri_profile_selenium (\<lambda>_. s) q w) = fst (run_iri_profile_selenium (\<lambda>_. s') q w)"
    "files (snd (run_iri_profile_selenium (\<lambda>_. s) q w)) = files (snd (run_iri_profile_selenium (\<lambda>_. s') q w))"
    using selenium_alike by blast+
next
  assume h: "n \<in> set field_names \<and> \<not> field_fills s n"
  let ?w1 = "say (info q) ''--- Downloading IRI model ---''
                 (emit (Submit (timeout q)) (w\<lparr>calls := Suc (calls w)\<rparr>))"
  from h drive_form_fill_fails[of n s q "emit Launched ?w1"] obtain w' es where
    d: "drive_form s q (emit Launched ?w1) = (Inl WebDriverException, w')" "files w' = files w"
       "trace w' = trace (emit Launched ?w1) @ es" "Clicked \<notin> set es" "Forced \<notin> set es"
    by auto
  show "fst (run_iri_profile_selenium (\<lambda>_. s) q w) = 1"
    using d(1) by (simp add: run_iri_profile_selenium_def Let_def)
  show "files (snd (run_iri_profile_selenium (\<lambda>_. s) q w)) = files w"
    using d(1,2) by (simp add: run_iri_profile_selenium_def Let_def)
  show "\<exists>es. trace (snd (run_iri_profile_selenium (\<lambda>_. s) q w)) = trace w @ es
              \<and> Clicked \<notin> set es \<and> Forced \<notin> set es"
    using d(1,3,4,5) by (cases "info q") (simp_all add: run_iri_profile_selenium_def Let_def say_def emit_def)
qed

text \<open>
  A session whose three selections all fail still submits and saves the result; a session
  whose latitude field cannot be written ends with status 1.
\<close>

theorem form_steps_witness:
  "run_iri_profile_selenium (\<lambda>_. stubborn_session) sample_query fresh =
     (0, \<lparr>files = [''out.txt'' \<mapsto> ''body''],
          trace = [Submit 30, Launched, Filled ''lat'' (Num 35), Filled ''lon'' (Num 135),
                   Filled ''start'' (Num 0), Filled ''stop'' (Num 2000), Filled ''step'' (Num 50),
                   Filled ''datetime'' (Stamp noon), Clicked, Slept 2, Fetched ''raw.txt'', Quit],
          calls = 1\<rparr>)
   \<and> fst (run_iri_profile_selenium (\<lambda>_. blocked_session) sample_query fresh) = 1"
proof -
  have a: "rest_alike stubborn_session live_session"
    by (simp add: rest_alike_def stubborn_session_def)
  have b: "''lat'' \<in> set field_names \<and> \<not> field_fills blocked_session ''lat''"
    by (simp add: field_names_def blocked_session_def)
  have c: "run_iri_profile_selenium (\<lambda>_. stubborn_session) sample_query fresh =
     (0, \<lparr>files = [''out.txt'' \<mapsto> ''body''],
          trace = [Submit 30, Launched, Filled ''lat'' (Num 35), Filled ''lon'' (Num 135),
                   Filled ''start'' (Num 0), Filled ''stop'' (Num 2000), Filled ''step'' (Num 50),
                   Filled ''datetime'' (Stamp noon), Clicked, Slept 2, Fetched ''raw.txt'', Quit],
          calls = 1\<rparr>)"
    by (simp add: run_iri_profile_selenium_def stubborn_session_def live_session_def sample_query_def fresh_def
        drive_form_def andthen_def done_with_def effect_def say_def emit_def fill_fields_def safe_fill_def
        select_version_def select_time_coord_def save_result_def write_file_def upt_rec
        lat_val_def lon_val_def min_alt_val_def max_alt_val_def step_alt_val_def correct_latitude_def
        correct_longitude_def pymod_def)
  show ?thesis
    using form_steps[of stubborn_session live_session sample_query fresh "''lat''"]
          form_steps[of blocked_session live_session sample_query fresh "''lat''"] a b c
    by simp
qed

text \<open>
  Claim C5 as stated fails for field population: with the latitude field unwritable and
  everything else in order the attempt stops before any other step and returns 1, where the
  same session with a writable field returns 0.
\<close>

theorem form_steps_counterexample:
  "run_iri_profile_selenium (\<lambda>_. blocked_session) sample_query fresh =
     (1, \<lparr>files = Map.empty, trace = [Submit 30, Launched, Quit], calls = 1\<rparr>)
   \<and> fst (run_iri_profile_selenium (\<lambda>_. live_session) sample_query fresh) = 0"
  by (simp add: run_iri_profile_selenium_def blocked_session_def live_session_def sample_query_def fresh_def
        drive_form_def andthen_def done_with_def effect_def raise_def say_def emit_def fill_fields_def safe_fill_def
        select_version_def select_time_coord_def save_result_def write_file_def upt_rec
        lat_val_def lon_val_def min_alt_val_def max_alt_val_def step_alt_val_def correct_latitude_def
        correct_longitude_def pymod_def coord_text_def lower_def lower_char_def)


section \<open>Properties of the parser\<close>

lemma div_step:
  assumes "0 < n"
  shows "(y::int) div n = (y - 1) div n + (if y mod n = 0 then 1 else 0)"
proof (cases "y mod n = 0")
  case True
  have "y = n * (y div n)" using True mult_div_mod_eq[of n y] by simp
  then have "y - 1 = n * (y div n - 1) + (n - 1)"
    by (simp add: algebra_simps)
  then have "(y - 1) div n = y div n - 1"
    using assms by (intro int_div_pos_eq[where r = "n - 1"]) auto
  then show ?thesis using True by simp
next
  case False
  have "0 \<le> y mod n" "y mod n < n"
    using assms by (rule pos_mod_sign, rule pos_mod_bound)
  then have r: "1 \<le> y mod n" "y mod n < n"
    using False by linarith+
  have "y - 1 = n * (y div n) + (y mod n - 1)" by simp
  then have "(y - 1) div n = y div n"
    using r by (intro int_div_pos_eq[where r = "y mod n - 1"]) auto
  then show ?thesis using False by simp
qed

lemma century_divides: "(y::int) mod 400 = 0 \<Longrightarrow> y mod 100 = 0" "(y::int) mod 100 = 0 \<Longrightarrow> y mod 4 = 0"
  by auto

lemma days_before_next_year: "days_before_year (y + 1) = days_before_year y + days_in_year y"
proof -
  define b4 b100 b400 where "b4 \<longleftrightarrow> y mod 4 = 0" and "b100 \<longleftrightarrow> y mod 100 = 0" and "b400 \<longleftrightarrow> y mod 400 = 0"
  define p4 p100 p400 where "p4 = (y - 1) div 4" and "p100 = (y - 1) div 100" and "p400 = (y - 1) div 400"
  define q4 q100 q400 where "q4 = y div 4" and "q100 = y div 100" and "q400 = y div 400"
  have d4: "q4 = p4 + (if b4 then 1 else 0)"
    unfolding q4_def p4_def b4_def by (rule div_step) simp
  have d100: "q100 = p100 + (if b100 then 1 else 0)"
    unfolding q100_def p100_def b100_def by (rule div_step) simp
  have d400: "q400 = p400 + (if b400 then 1 else 0)"
    unfolding q400_def p400_def b400_def by (rule div_step) simp
  have imp: "b400 \<longrightarrow> b100" "b100 \<longrightarrow> b4"
    unfolding b4_def b100_def b400_def using century_divides[of y] by blast+
  have n: "days_before_year (y + 1) = 365 * y + q4 - q100 + q400"
    unfolding q4_def q100_def q400_def by (simp add: days_before_year_def)
  have o: "days_before_year y = 365 * (y - 1) + p4 - p100 + p400"
    unfolding p4_def p100_def p400_def by (simp add: days_before_year_def)
  have l: "days_in_year y = (if b4 \<and> (\<not> b100 \<or> b400) then 366 else 365)"
    unfolding b4_def b100_def b400_def by (simp add: days_in_year_def is_leap_def)
  show ?thesis
    unfolding n o l d4 d100 d400 using imp by (cases b4; cases b100; cases b400) simp_all
qed

lemma year_of_offset_sound:
  "year_of_offset y k = (y', k') \<Longrightarrow>
     days_before_year y' + k' = days_before_year y + k \<and> 0 \<le> k' \<and> k' < days_in_year y'"
proof (induction y k rule: year_of_offset.induct)
  case (1 y k)
  show ?case
  proof (cases "k < 0")
    case True
    then have "year_of_offset (y - 1) (k + days_in_year (y - 1)) = (y', k')"
      using "1.prems" by (subst (asm) year_of_offset.simps) simp
    from "1.IH"(1)[OF True this] days_before_next_year[of "y - 1"] show ?thesis by simp
  next
    case False
    show ?thesis
    proof (cases "k \<ge> days_in_year y")
      case True
      then have "year_of_offset (y + 1) (k - days_in_year y) = (y', k')"
        using "1.prems" False by (subst (asm) year_of_offset.simps) simp
      from "1.IH"(2)[OF False True this] days_before_next_year[of y] show ?thesis by simp
    next
      case ge: False
      then have "y' = y" "k' = k" using "1.prems" False by (subst (asm) year_of_offset.simps, simp)+
      then show ?thesis using False ge by simp
    qed
  qed
qed

lemma days_before_month_Suc:
  "1 \<le> m \<Longrightarrow> days_before_month y (Suc m) = days_before_month y m + days_in_month y m"
  by (simp add: days_before_month_def)

lemma days_before_month_13: "days_before_month y 13 = days_in_year y"
proof -
  have "[1..<13] = [1,2,3,4,5,6,7,8,9,10,11,12::nat]" by (simp add: upt_rec)
  then show ?thesis by (simp add: days_before_month_def days_in_month_def days_in_year_def)
qed

lemma days_in_month_pos: "0 < days_in_month y m"
  by (simp add: days_in_month_def)

lemma days_before_month_le:
  "1 \<le> m \<Longrightarrow> m \<le> 12 \<Longrightarrow> days_before_month y m + days_in_month y m \<le> days_in_year y"
proof -
  assume m: "1 \<le> m" "m \<le> 12"
  have mono: "\<And>n. 1 \<le> n \<Longrightarrow> days_before_month y n \<le> days_before_month y (n + j)" for j
  proof (induction j)
    case 0 then show ?case by simp
  next
    case (Suc j)
    have "days_before_month y (Suc (n + j)) = days_before_month y (n + j) + days_in_month y (n + j)"
      using Suc.prems by (intro days_before_month_Suc) simp
    then show ?case using Suc.IH[OF Suc.prems] days_in_month_pos[of y "n + j"] by simp
  qed
  have "days_before_month y (Suc m) \<le> days_before_month y (Suc m + (12 - m))"
    by (rule mono) simp
  moreover have "Suc m + (12 - m) = 13" using m by simp
  ultimately have "days_before_month y (Suc m) \<le> days_in_year y"
    by (simp add: days_before_month_13)
  then show ?thesis using days_before_month_Suc[OF m(1)] by simp
qed

lemma month_of_offset_sound:
  "month_of_offset y m k = (m', d) \<Longrightarrow> 1 \<le> m \<Longrightarrow> m \<le> 12 \<Longrightarrow> 0 \<le> k \<Longrightarrow>
   days_before_month y m + k < days_in_year y \<Longrightarrow>
     1 \<le> m' \<and> m' \<le> 12 \<and> 1 \<le> d \<and> d \<le> days_in_month y m' \<and>
     days_before_month y m' + d = days_before_month y m + k + 1"
proof (induction y m k rule: month_of_offset.induct)
  case (1 y m k)
  show ?case
  proof (cases "m < 12 \<and> k \<ge> days_in_month y m")
    case True
    then have e: "month_of_offset y (Suc m) (k - days_in_month y m) = (m', d)"
      using "1.prems"(1) by (subst (asm) month_of_offset.simps) simp
    have s: "days_before_month y (Suc m) = days_before_month y m + days_in_month y m"
      using "1.prems"(2) by (rule days_before_month_Suc)
    from "1.IH"[OF True e] True "1.prems" s show ?thesis by simp
  next
    case False
    then have md: "m' = m" "d = k + 1"
      using "1.prems"(1) by (subst (asm) month_of_offset.simps, simp)+
    have "k < days_in_month y m"
    proof (cases "m < 12")
      case True then show ?thesis using False by simp
    next
      case F: False
      then have "m = 12" using "1.prems"(3) by simp
      then have "days_before_month y (Suc m) = days_in_year y" by (simp add: days_before_month_13)
      then show ?thesis using days_before_month_Suc[OF "1.prems"(2), of y] "1.prems"(5) by simp
    qed
    then show ?thesis using md "1.prems" by simp
  qed
qed

lemma time_of_day_split:
  "t div 3600 * 3600 + t mod 3600 div 60 * 60 + t mod 60 = (t::int)"
proof -
  have a: "t mod 3600 mod 60 = t mod 60" by (simp add: mod_mod_cancel)
  have "t mod 3600 div 60 * 60 + t mod 3600 mod 60 = t mod 3600" by simp
  then have "t mod 3600 div 60 * 60 + t mod 60 = t mod 3600" using a by simp
  moreover have "t div 3600 * 3600 + t mod 3600 = t" by simp
  ultimately show ?thesis by linarith
qed

lemma isdigit_not_space: "isdigit c \<Longrightarrow> \<not> isspace c"
  by (auto simp: isdigit_def isspace_def Let_def)

lemma isdigit_not_minus: "isdigit c \<Longrightarrow> c \<noteq> CHR ''-''"
  by (auto simp: isdigit_def Let_def)

lemma strip_digits: "list_all isdigit dd \<Longrightarrow> strip dd = dd"
proof -
  assume d: "list_all isdigit dd"
  have a: "dropWhile isspace dd = dd"
    using d by (cases dd) (auto simp: isdigit_not_space)
  have "list_all isdigit (rev dd)" using d by (simp add: list_all_iff)
  then have b: "dropWhile isspace (rev dd) = rev dd"
    by (cases "rev dd") (auto simp: isdigit_not_space)
  show ?thesis by (simp add: strip_def a b)
qed

lemma unsigned_digits:
  assumes "list_all isdigit dd" and "ds = dd \<or> ds = CHR ''-'' # dd"
  shows "strip (dropWhile (\<lambda>c. c = CHR ''-'') ds) = dd"
proof -
  have "dropWhile (\<lambda>c. c = CHR ''-'') dd = dd"
    using assms(1) by (cases dd) (auto simp: isdigit_not_minus)
  then have "dropWhile (\<lambda>c. c = CHR ''-'') ds = dd" using assms(2) by auto
  then show ?thesis using assms(1) by (simp add: strip_digits)
qed

lemma match_header_at_shape:
  assumes "match_header_at s = Some (ys, ds, us)"
  shows "length ys = 4 \<and> list_all isdigit ys \<and>
         (\<exists>dd. dd \<noteq> [] \<and> list_all isdigit dd \<and> (ds = dd \<or> ds = CHR ''-'' # dd))"
proof -
  have t: "\<And>xs. list_all isdigit (takeWhile isdigit xs)"
    by (simp add: list_all_iff) (meson set_takeWhileD)
  show ?thesis
    using assms t
    by (auto simp: match_header_at_def Let_def split: list.splits if_splits)
qed

lemma search_header_shape:
  "search_header s = Some (ys, ds, us) \<Longrightarrow>
     length ys = 4 \<and> list_all isdigit ys \<and>
     (\<exists>dd. dd \<noteq> [] \<and> list_all isdigit dd \<and> (ds = dd \<or> ds = CHR ''-'' # dd))"
proof (induction s)
  case Nil
  then show ?case by simp
next
  case (Cons c cs)
  show ?case
  proof (cases "match_header_at (c # cs)")
    case None
    then show ?thesis using Cons by simp
  next
    case (Some g)
    then have "match_header_at (c # cs) = Some (ys, ds, us)" using Cons.prems by simp
    then show ?thesis by (rule match_header_at_shape)
  qed
qed

lemma yday_jan1: "yday \<lparr>year = y, month = 1, day = 1, hour = 0, minute = 0, second = 0\<rparr> = 1"
  by (simp add: yday_def days_before_month_def)

lemma plus_timedelta_unfold:
  assumes "year_of_offset (year d) (yday d - 1 + days + (second_of_day d + secs) div 86400) = (y, k)"
      and "month_of_offset y 1 k = (m, dd)"
  shows "plus_timedelta d days secs =
           (if y < 1 \<or> y > 9999 then Inl OverflowError
            else Inr \<lparr>year = y, month = int m, day = dd,
                      hour = (second_of_day d + secs) mod 86400 div 3600,
                      minute = (second_of_day d + secs) mod 86400 mod 3600 div 60,
                      second = (second_of_day d + secs) mod 86400 mod 60\<rparr>)"
  using assms unfolding plus_timedelta_def second_of_day_def Let_def by (simp only: prod.case)

lemma plus_timedelta_sound:
  assumes "plus_timedelta d days secs = Inr d'"
  shows "ordinal d' = ordinal d + days + (second_of_day d + secs) div 86400
       \<and> second_of_day d' = (second_of_day d + secs) mod 86400
       \<and> 1 \<le> year d' \<and> year d' \<le> 9999 \<and> 1 \<le> month d' \<and> month d' \<le> 12
       \<and> 1 \<le> day d' \<and> day d' \<le> days_in_month (year d') (nat (month d'))"
proof -
  define carry where "carry = (second_of_day d + secs) div 86400"
  define tod where "tod = (second_of_day d + secs) mod 86400"
  obtain y k where yk: "year_of_offset (year d) (yday d - 1 + days + carry) = (y, k)"
    by (cases "year_of_offset (year d) (yday d - 1 + days + carry)")
  obtain m dd where md: "month_of_offset y 1 k = (m, dd)" by (cases "month_of_offset y 1 k")
  from year_of_offset_sound[OF yk] have
    k: "days_before_year y + k = days_before_year (year d) + (yday d - 1 + days + carry)"
       "0 \<le> k" "k < days_in_year y" by simp_all
  have z: "days_before_month y 1 = 0" by (simp add: days_before_month_def)
  from month_of_offset_sound[OF md] k z have
    m: "1 \<le> m" "m \<le> 12" "1 \<le> dd" "dd \<le> days_in_month y m" "days_before_month y m + dd = k + 1"
    by simp_all
  have u: "plus_timedelta d days secs =
           (if y < 1 \<or> y > 9999 then Inl OverflowError
            else Inr \<lparr>year = y, month = int m, day = dd, hour = tod div 3600,
                      minute = tod mod 3600 div 60, second = tod mod 60\<rparr>)"
    using plus_timedelta_unfold[OF yk[unfolded carry_def] md] by (simp only: tod_def)
  have range: "1 \<le> y" "y \<le> 9999"
    using assms u by (auto split: if_splits)
  then have d': "d' = \<lparr>year = y, month = int m, day = dd, hour = tod div 3600,
                      minute = tod mod 3600 div 60, second = tod mod 60\<rparr>"
    using assms u by simp
  have o: "ordinal d' = ordinal d + days + carry"
    using k(1) m(5) by (simp add: d' ordinal_def yday_def)
  have s: "second_of_day d' = tod"
    using time_of_day_split[of tod] by (simp only: d' second_of_day_def datetime.simps)
  have "ordinal d' = ordinal d + days + carry \<and> second_of_day d' = tod
       \<and> 1 \<le> year d' \<and> year d' \<le> 9999 \<and> 1 \<le> month d' \<and> month d' \<le> 12
       \<and> 1 \<le> day d' \<and> day d' \<le> days_in_month (year d') (nat (month d'))"
    using o s range m by (simp add: d')
  then show ?thesis unfolding carry_def tod_def .
qed

lemma plus_timedelta_same_year:
  assumes "1 \<le> year d" "year d \<le> 9999" "1 \<le> yday d + days" "yday d + days \<le> days_in_year (year d)"
     and "0 \<le> second_of_day d + secs" "second_of_day d + secs < 86400"
  shows "\<exists>d'. plus_timedelta d days secs = Inr d' \<and> year d' = year d \<and> yday d' = yday d + days"
proof -
  have dv: "(second_of_day d + secs) div 86400 = 0" using assms(5,6) by simp
  have "year_of_offset (year d) (yday d - 1 + days) = (year d, yday d - 1 + days)"
    using assms(3,4) by (subst year_of_offset.simps) simp
  then have yk: "year_of_offset (year d) (yday d - 1 + days + (second_of_day d + secs) div 86400) = (year d, yday d - 1 + days)"
    by (simp only: dv add_0_right)
  obtain m dd where md: "month_of_offset (year d) 1 (yday d - 1 + days) = (m, dd)"
    by (cases "month_of_offset (year d) 1 (yday d - 1 + days)")
  have z: "days_before_month (year d) 1 = 0" by (simp add: days_before_month_def)
  from month_of_offset_sound[OF md] assms(3,4) z have
    m: "days_before_month (year d) m + dd = yday d + days" by simp
  show ?thesis
    using plus_timedelta_unfold[OF yk md] assms(1,2) m by (simp add: yday_def)
qed

lemma digit_val_range: "isdigit c \<Longrightarrow> 0 \<le> digit_val c \<and> digit_val c \<le> 9"
  by (auto simp: isdigit_def digit_val_def Let_def)

lemma four_digits_range:
  assumes "length ys = 4" and "list_all isdigit ys"
  shows "0 \<le> int_of_digits ys \<and> int_of_digits ys \<le> 9999"
proof -
  from assms(1) obtain a b c d where ys: "ys = [a, b, c, d]"
    by (auto simp: numeral_eq_Suc length_Suc_conv)
  have "0 \<le> digit_val a \<and> digit_val a \<le> 9" "0 \<le> digit_val b \<and> digit_val b \<le> 9"
       "0 \<le> digit_val c \<and> digit_val c \<le> 9" "0 \<le> digit_val d \<and> digit_val d \<le> 9"
    using assms(2) ys by (simp_all add: digit_val_range)
  then show ?thesis by (simp add: ys int_of_digits_def)
qed

lemma resolve_time_unfold:
  assumes "pyfloat env us = Some h"
      and "strip (dropWhile (\<lambda>c. c = CHR ''-'') ds) = dd"
  shows "resolve_time env ys ds us =
     (case new_year (int_of_digits ys) of
        Inl e \<Rightarrow> Inl e
      | Inr jan1 \<Rightarrow>
          (case plus_timedelta jan1 (int_of_digits dd - 1) 0 of
             Inl e \<Rightarrow> Inl e
           | Inr date_obj \<Rightarrow>
               plus_timedelta (date_obj\<lparr>hour := 0, minute := 0, second := 0\<rparr>) 0 (clock_seconds h)))"
  using assms by (simp add: resolve_time_def clock_seconds_def Let_def split: sum.splits)

lemma resolve_time_sound:
  assumes u: "pyfloat env us = Some h"
      and s: "strip (dropWhile (\<lambda>c. c = CHR ''-'') ds) = dd"
      and r: "resolve_time env ys ds us = Inr d"
  shows "ordinal d = days_before_year (int_of_digits ys) + int_of_digits dd + clock_seconds h div 86400
       \<and> second_of_day d = clock_seconds h mod 86400
       \<and> 1 \<le> month d \<and> month d \<le> 12 \<and> 1 \<le> day d \<and> day d \<le> days_in_month (year d) (nat (month d))"
proof -
  let ?Y = "int_of_digits ys"
  let ?jan1 = "\<lparr>year = ?Y, month = 1, day = 1, hour = 0, minute = 0, second = 0\<rparr>"
  note e = r[unfolded resolve_time_unfold[OF u s]]
  have ny: "new_year ?Y = Inr ?jan1"
    using e by (auto simp: new_year_def split: if_splits)
  obtain date_obj where p1: "plus_timedelta ?jan1 (int_of_digits dd - 1) 0 = Inr date_obj"
    using e ny by (cases "plus_timedelta ?jan1 (int_of_digits dd - 1) 0") auto
  let ?d0 = "date_obj\<lparr>hour := 0, minute := 0, second := 0\<rparr>"
  have p2: "plus_timedelta ?d0 0 (clock_seconds h) = Inr d"
    using e ny p1 by simp
  have j: "ordinal ?jan1 = days_before_year ?Y + 1" "second_of_day ?jan1 = 0"
    by (simp_all add: ordinal_def yday_jan1 second_of_day_def)
  have "ordinal date_obj = ordinal ?jan1 + (int_of_digits dd - 1) + (second_of_day ?jan1 + 0) div 86400"
    using plus_timedelta_sound[OF p1] by blast
  then have o1: "ordinal date_obj = days_before_year ?Y + int_of_digits dd"
    by (simp add: j)
  have d0: "ordinal ?d0 = ordinal date_obj" "second_of_day ?d0 = 0"
    by (simp_all add: ordinal_def yday_def second_of_day_def)
  from plus_timedelta_sound[OF p2] have
    f: "ordinal d = ordinal ?d0 + 0 + (second_of_day ?d0 + clock_seconds h) div 86400"
       "second_of_day d = (second_of_day ?d0 + clock_seconds h) mod 86400"
       "1 \<le> month d \<and> month d \<le> 12 \<and> 1 \<le> day d \<and> day d \<le> days_in_month (year d) (nat (month d))"
    by blast+
  have a: "ordinal d = days_before_year ?Y + int_of_digits dd + clock_seconds h div 86400"
    unfolding f(1) d0 o1 by simp
  have b: "second_of_day d = clock_seconds h mod 86400"
    unfolding f(2) d0 by simp
  show ?thesis using a b f(3) by blast
qed

lemma resolve_time_in_year:
  assumes u: "pyfloat env us = Some h"
      and s: "strip (dropWhile (\<lambda>c. c = CHR ''-'') ds) = dd"
      and y: "1 \<le> int_of_digits ys" "int_of_digits ys \<le> 9999"
      and dd: "1 \<le> int_of_digits dd" "int_of_digits dd \<le> days_in_year (int_of_digits ys)"
      and t: "0 \<le> clock_seconds h" "clock_seconds h < 86400"
  shows "\<exists>d. resolve_time env ys ds us = Inr d \<and> year d = int_of_digits ys
            \<and> yday d = int_of_digits dd \<and> second_of_day d = clock_seconds h"
proof -
  let ?Y = "int_of_digits ys"
  let ?jan1 = "\<lparr>year = ?Y, month = 1, day = 1, hour = 0, minute = 0, second = 0\<rparr>"
  have ny: "new_year ?Y = Inr ?jan1" using y by (simp add: new_year_def)
  have "\<exists>d'. plus_timedelta ?jan1 (int_of_digits dd - 1) 0 = Inr d' \<and> year d' = year ?jan1
             \<and> yday d' = yday ?jan1 + (int_of_digits dd - 1)"
    using y dd by (intro plus_timedelta_same_year) (simp_all add: yday_jan1 second_of_day_def)
  then obtain date_obj where p1: "plus_timedelta ?jan1 (int_of_digits dd - 1) 0 = Inr date_obj"
      and y1: "year date_obj = ?Y" and d1: "yday date_obj = int_of_digits dd"
    by (auto simp: yday_jan1)
  let ?d0 = "date_obj\<lparr>hour := 0, minute := 0, second := 0\<rparr>"
  have d0: "year ?d0 = ?Y" "yday ?d0 = int_of_digits dd" "second_of_day ?d0 = 0"
    using y1 d1 by (simp_all add: yday_def second_of_day_def)
  have "\<exists>d'. plus_timedelta ?d0 0 (clock_seconds h) = Inr d' \<and> year d' = year ?d0 \<and> yday d' = yday ?d0 + 0"
  proof (rule plus_timedelta_same_year)
    show "1 \<le> year ?d0" "year ?d0 \<le> 9999" using y by (simp_all only: d0)
    show "1 \<le> yday ?d0 + 0" "yday ?d0 + 0 \<le> days_in_year (year ?d0)"
      using dd by (simp_all only: d0 add_0_right)
    show "0 \<le> second_of_day ?d0 + clock_seconds h" "second_of_day ?d0 + clock_seconds h < 86400"
      using t by (simp_all only: d0 add_0_left)
  qed
  then obtain d where p2: "plus_timedelta ?d0 0 (clock_seconds h) = Inr d"
      and y2: "year d = ?Y" and d2: "yday d = int_of_digits dd"
    using d0 by auto
  have "second_of_day d = (second_of_day ?d0 + clock_seconds h) mod 86400"
    using plus_timedelta_sound[OF p2] by blast
  also have "\<dots> = clock_seconds h mod 86400" by (simp only: d0 add_0_left)
  also have "\<dots> = clock_seconds h" using t by (rule mod_pos_pos_trivial)
  finally have s2: "second_of_day d = clock_seconds h" .
  have "resolve_time env ys ds us = Inr d"
    unfolding resolve_time_unfold[OF u s] using ny p1 p2 by simp
  then show ?thesis using y2 d2 s2 by blast
qed

text \<open>
  Claim C9. Let the header line match the pattern, with groups year, day of year and UT hour,
  and let the hour be a number. Then the day group is a digit string with at most one minus
  sign in front, and the sign is discarded: the resolved time is that of the bare digits.
  Every resolved time lies (day of year - 1) days after 1 January of the year, plus the whole
  days carried by the time of day, at the second of the day given by the hours, the minutes
  and the rounded seconds of the fractional hour; its month and day are a calendar date. When
  the day of year lies in the year and the seconds stay below one day, the time is resolved,
  in that year, on that day of the year, at that second. The fractional hour is an exact real.
\<close>

theorem header_resolution:
  assumes "search_header line = Some (year_str, doy_str, ut_hour_str)"
      and "pyfloat env ut_hour_str = Some ut_hour"
  shows "\<exists>digits. digits \<noteq> [] \<and> list_all isdigit digits
          \<and> (doy_str = digits \<or> doy_str = CHR ''-'' # digits)
          \<and> resolve_time env year_str doy_str ut_hour_str = resolve_time env year_str digits ut_hour_str
          \<and> (\<forall>d. resolve_time env year_str doy_str ut_hour_str = Inr d \<longrightarrow>
                 ordinal d = days_before_year (int_of_digits year_str) + int_of_digits digits
                               + clock_seconds ut_hour div 86400
               \<and> second_of_day d = clock_seconds ut_hour mod 86400
               \<and> 1 \<le> month d \<and> month d \<le> 12
               \<and> 1 \<le> day d \<and> day d \<le> days_in_month (year d) (nat (month d)))
          \<and> (1 \<le> int_of_digits year_str
               \<and> 1 \<le> int_of_digits digits \<and> int_of_digits digits \<le> days_in_year (int_of_digits year_str)
               \<and> 0 \<le> clock_seconds ut_hour \<and> clock_seconds ut_hour < 86400 \<longrightarrow>
                 (\<exists>d. resolve_time env year_str doy_str ut_hour_str = Inr d
                     \<and> year d = int_of_digits year_str \<and> yday d = int_of_digits digits
                     \<and> second_of_day d = clock_seconds ut_hour))"
proof -
  from search_header_shape[OF assms(1)] obtain digits where
    g: "length year_str = 4" "list_all isdigit year_str" "digits \<noteq> []" "list_all isdigit digits"
       "doy_str = digits \<or> doy_str = CHR ''-'' # digits"
    by blast
  have s1: "strip (dropWhile (\<lambda>c. c = CHR ''-'') doy_str) = digits"
    using g(4,5) by (rule unsigned_digits)
  have s2: "strip (dropWhile (\<lambda>c. c = CHR ''-'') digits) = digits"
    using g(4) by (rule unsigned_digits) simp
  have sign: "resolve_time env year_str doy_str ut_hour_str = resolve_time env year_str digits ut_hour_str"
    by (simp only: resolve_time_unfold[OF assms(2) s1] resolve_time_unfold[OF assms(2) s2])
  have sound: "\<forall>d. resolve_time env year_str doy_str ut_hour_str = Inr d \<longrightarrow>
                 ordinal d = days_before_year (int_of_digits year_str) + int_of_digits digits
                               + clock_seconds ut_hour div 86400
               \<and> second_of_day d = clock_seconds ut_hour mod 86400
               \<and> 1 \<le> month d \<and> month d \<le> 12
               \<and> 1 \<le> day d \<and> day d \<le> days_in_month (year d) (nat (month d))"
    using resolve_time_sound[OF assms(2) s1] by blast
  have y: "int_of_digits year_str \<le> 9999" using four_digits_range[OF g(1,2)] by blast
  have inyear: "1 \<le> int_of_digits year_str
               \<and> 1 \<le> int_of_digits digits \<and> int_of_digits digits \<le> days_in_year (int_of_digits year_str)
               \<and> 0 \<le> clock_seconds ut_hour \<and> clock_seconds ut_hour < 86400 \<longrightarrow>
                 (\<exists>d. resolve_time env year_str doy_str ut_hour_str = Inr d
                     \<and> year d = int_of_digits year_str \<and> yday d = int_of_digits digits
                     \<and> second_of_day d = clock_seconds ut_hour)"
    using resolve_time_in_year[OF assms(2) s1 _ y] by blast
  show ?thesis using g(3,4,5) sign sound inyear by blast
qed

text \<open>
  The header \<open>2012/ -42/10.0UT\<close> of a service report resolves to 11 February 2012, the 42nd
  day of 2012, at 10:00:00, with and without the sign.
\<close>

theorem header_resolution_witness:
  "search_header sample_header = Some (''2012'', ''-42'', ''10.0'')
   \<and> pyfloat sample_env ''10.0'' = Some 10
   \<and> resolve_time sample_env ''2012'' ''-42'' ''10.0''
       = Inr \<lparr>year = 2012, month = 2, day = 11, hour = 10, minute = 0, second = 0\<rparr>
   \<and> resolve_time sample_env ''2012'' ''42'' ''10.0''
       = Inr \<lparr>year = 2012, month = 2, day = 11, hour = 10, minute = 0, second = 0\<rparr>
   \<and> yday \<lparr>year = 2012, month = 2, day = 11, hour = 10, minute = 0, second = 0\<rparr> = 42
   \<and> header_time sample_env [''IRI'', '''', '''', sample_header] = Inr (Some ''2012-02-11 10:00:00'')"
proof -
  have a: "search_header sample_header = Some (''2012'', ''-42'', ''10.0'')" by code_simp
  have b: "pyfloat sample_env ''10.0'' = Some 10" by code_simp
  have c: "resolve_time sample_env ''2012'' ''-42'' ''10.0''
       = Inr \<lparr>year = 2012, month = 2, day = 11, hour = 10, minute = 0, second = 0\<rparr>" by code_simp
  have d: "yday \<lparr>year = 2012, month = 2, day = 11, hour = 10, minute = 0, second = 0\<rparr> = 42" by code_simp
  have e: "header_time sample_env [''IRI'', '''', '''', sample_header] = Inr (Some ''2012-02-11 10:00:00'')"
    by code_simp
  from header_resolution[OF a b] obtain digits where
    g: "''-42'' = digits \<or> ''-42'' = CHR ''-'' # digits" "list_all isdigit digits"
       "resolve_time sample_env ''2012'' ''-42'' ''10.0'' = resolve_time sample_env ''2012'' digits ''10.0''"
    by blast
  have "\<not> list_all isdigit ''-42''" by code_simp
  then have "digits = ''42''" using g(1,2) by auto
  then have "resolve_time sample_env ''2012'' ''42'' ''10.0''
       = Inr \<lparr>year = 2012, month = 2, day = 11, hour = 10, minute = 0, second = 0\<rparr>"
    using g(3) c by simp
  then show ?thesis using a b c d e by simp
qed

lemma data_row_shape:
  "data_row env line = Some parts \<Longrightarrow> 10 \<le> length parts \<and> pyfloat env (hd parts) \<noteq> None"
  by (auto simp: data_row_def Let_def split: if_splits option.splits)

lemma extracted_data_shape:
  "r \<in> set (extracted_data env lines) \<Longrightarrow> 10 \<le> length r \<and> pyfloat env (hd r) \<noteq> None"
  by (auto simp: extracted_data_def List.map_filter_def dest: data_row_shape)

lemma take_columns_eq:
  "take_columns a ps =
     (if \<forall>(i, key) \<in> set ps. i < length (hd a)
      then Inr (map (\<lambda>(i, key). (key, map (\<lambda>r. r ! i) a)) ps)
      else Inl IndexError)"
  by (induction ps) (auto simp: column_def split: sum.splits)

lemma enumerate_keys:
  "enumerate 0 keys =
     [(0, ''altitude''), (1, ''Ne''), (2, ''Ne/NmF2''), (3, ''Tn''), (4, ''Ti''), (5, ''Te''),
      (6, ''O+''), (7, ''N+''), (8, ''H+''), (9, ''He+''), (10, ''O2+''), (11, ''NO+''),
      (12, ''Clust''), (13, ''TEC''), (14, ''t/%'')]"
  by (simp add: keys_def)

lemma keys_in_range: "(\<forall>(i, key) \<in> set (enumerate 0 keys). i < n) \<longleftrightarrow> 15 \<le> n"
  by (auto simp: enumerate_keys)

lemma float_array_eq:
  "float_array env rows =
     (if ragged rows \<or> unreadable env rows then Inl ValueError
      else Inr (map (map (\<lambda>t. the (pyfloat env t))) rows))"
  by (simp add: float_array_def ragged_def unreadable_def)

lemma build_profile_eq:
  assumes "rows \<noteq> []"
  shows "build_profile env ts rows =
     (if ragged rows \<or> unreadable env rows then Inl ValueError
      else if length (hd rows) < 15 then Inl IndexError
      else Inr (Some \<lparr>time_str = ts, time_unix = str_to_unix env ts,
             columns = to_mksa (map (\<lambda>(i, key). (key, map (\<lambda>r. r ! i) (map (map (\<lambda>t. the (pyfloat env t))) rows)))
                                 (enumerate 0 keys))\<rparr>))"
proof -
  have h: "length (hd (map (map (\<lambda>t. the (pyfloat env t))) rows)) = length (hd rows)"
    using assms by (cases rows) simp_all
  show ?thesis
    using assms
    by (simp add: build_profile_def float_array_eq take_columns_eq keys_in_range h)
qed

lemma extract_unfold:
  assumes "fs filepath = Some file_content" and "endswith filepath ''txt''"
      and "header_time env (split_on (CHR 0x0A) file_content) = Inr (Some ts)"
      and "extracted_data env (split_on (CHR 0x0A) file_content) = rows"
  shows "extract_iri_profile_data env fs filepath = build_profile env ts rows"
  using assms by (simp add: extract_iri_profile_data_def Let_def)

lemma subscript_altitude:
  "subscript \<lparr>time_str = ts, time_unix = tu,
      columns = to_mksa (map (\<lambda>(i, key). (key, map (\<lambda>r. r ! i) a)) (enumerate 0 keys))\<rparr> ''altitude''
   = map (\<lambda>r. r ! 0 * 1000) a"
  by (simp add: subscript_def enumerate_keys to_mksa_def unit_factor_def)

lemma sorted_wrt_scaled:
  "sorted_wrt (<) (map (\<lambda>x. x * 1000) (xs :: real list)) \<longleftrightarrow> sorted_wrt (<) xs"
  by (simp add: sorted_wrt_map)

text \<open>
  Claim C4, as the code has it. A path that does not exist or does not end in \<open>txt\<close> makes
  \<open>extract_iri_profile_data\<close> raise ValueError; an existing text file of fewer than four
  lines makes it return None.
\<close>

theorem extract_failure_modes:
  "(fs filepath = None \<or> \<not> endswith filepath ''txt'' \<longrightarrow>
      extract_iri_profile_data env fs filepath = Inl ValueError)
   \<and> (fs filepath = Some file_content \<and> endswith filepath ''txt''
        \<and> length (split_on (CHR 0x0A) file_content) < 4 \<longrightarrow>
      extract_iri_profile_data env fs filepath = Inr None)"
  by (auto simp: extract_iri_profile_data_def header_time_def Let_def split: option.splits)

text \<open>A three-line text file, a missing path and a path ending in \<open>dat\<close>.\<close>

theorem extract_failure_modes_witness:
  "extract_iri_profile_data sample_env [''p.txt'' \<mapsto> text_of [''one'', ''two'', ''three'']] ''p.txt'' = Inr None
   \<and> extract_iri_profile_data sample_env [''p.txt'' \<mapsto> ''one''] ''q.txt'' = Inl ValueError
   \<and> extract_iri_profile_data sample_env [''p.dat'' \<mapsto> sample_report [row_100]] ''p.dat'' = Inl ValueError"
proof -
  have a: "[''p.txt'' \<mapsto> text_of [''one'', ''two'', ''three'']] ''p.txt'' = Some (text_of [''one'', ''two'', ''three''])
        \<and> endswith ''p.txt'' ''txt'' \<and> length (split_on (CHR 0x0A) (text_of [''one'', ''two'', ''three''])) < 4"
    by (simp add: endswith_def)
  have b: "[''p.txt'' \<mapsto> ''one''] ''q.txt'' = None \<or> \<not> endswith ''q.txt'' ''txt''"
    by simp
  have c: "[''p.dat'' \<mapsto> sample_report [row_100]] ''p.dat'' = None \<or> \<not> endswith ''p.dat'' ''txt''"
    by (simp add: endswith_def)
  show ?thesis
    using extract_failure_modes[where fs = "[''p.txt'' \<mapsto> text_of [''one'', ''two'', ''three'']]"
            and filepath = "''p.txt''" and file_content = "text_of [''one'', ''two'', ''three'']" and env = sample_env]
          extract_failure_modes[where fs = "[''p.txt'' \<mapsto> ''one'']" and filepath = "''q.txt''"
            and file_content = "''one''" and env = sample_env]
          extract_failure_modes[where fs = "[''p.dat'' \<mapsto> sample_report [row_100]]" and filepath = "''p.dat''"
            and file_content = "''one''" and env = sample_env]
          a b c
    by blast
qed

text \<open>
  Claim C4 as stated fails: for an existing file whose name does not end in \<open>txt\<close> the
  parser does not return None, it raises ValueError.
\<close>

theorem extract_failure_modes_counterexample:
  "\<not> endswith ''p.dat'' ''txt''
   \<and> extract_iri_profile_data sample_env [''p.dat'' \<mapsto> sample_report [row_100]] ''p.dat'' \<noteq> Inr None
   \<and> extract_iri_profile_data sample_env [''p.dat'' \<mapsto> sample_report [row_100]] ''p.dat'' = Inl ValueError"
  by (simp add: extract_iri_profile_data_def endswith_def)

text \<open>
  Claim C3, as the code has it. The altitude column of a returned table is, in file order, the
  first token of every accepted line as a number, times 1000. Nothing is checked or reordered:
  the column is strictly increasing exactly when the altitudes of the accepted lines are.
\<close>

theorem altitude_column:
  assumes "fs filepath = Some file_content"
      and "extract_iri_profile_data env fs filepath = Inr (Some table)"
  shows "subscript table ''altitude''
           = map (\<lambda>row. the (pyfloat env (hd row)) * 1000) (extracted_data env (split_on (CHR 0x0A) file_content))
       \<and> (sorted_wrt (<) (subscript table ''altitude'') \<longleftrightarrow>
            sorted_wrt (<) (map (\<lambda>row. the (pyfloat env (hd row)))
                              (extracted_data env (split_on (CHR 0x0A) file_content))))"
proof -
  let ?lines = "split_on (CHR 0x0A) file_content"
  let ?rows = "extracted_data env ?lines"
  let ?a = "map (map (\<lambda>t. the (pyfloat env t))) ?rows"
  from assms obtain ts where ts: "header_time env ?lines = Inr (Some ts)" and ext: "endswith filepath ''txt''"
    by (auto simp: extract_iri_profile_data_def Let_def split: if_splits sum.splits option.splits)
  have b: "build_profile env ts ?rows = Inr (Some table)"
    using extract_unfold[where fs = fs and filepath = filepath, OF assms(1) ext ts refl] assms(2) by simp
  then have ne: "?rows \<noteq> []" by (auto simp: build_profile_def)
  from b have t: "table = \<lparr>time_str = ts, time_unix = str_to_unix env ts,
             columns = to_mksa (map (\<lambda>(i, key). (key, map (\<lambda>r. r ! i) ?a)) (enumerate 0 keys))\<rparr>"
    unfolding build_profile_eq[OF ne] by (simp split: if_splits)
  have hd0: "\<And>r. r \<in> set ?rows \<Longrightarrow> map (\<lambda>t. the (pyfloat env t)) r ! 0 = the (pyfloat env (hd r))"
  proof -
    fix r assume "r \<in> set ?rows"
    then have "10 \<le> length r" using extracted_data_shape by blast
    then show "map (\<lambda>t. the (pyfloat env t)) r ! 0 = the (pyfloat env (hd r))"
      by (cases r) simp_all
  qed
  have alt: "subscript table ''altitude'' = map (\<lambda>row. the (pyfloat env (hd row)) * 1000) ?rows"
    unfolding t subscript_altitude using hd0 by simp
  have "map (\<lambda>row. the (pyfloat env (hd row)) * 1000) ?rows
          = map (\<lambda>x. x * 1000) (map (\<lambda>row. the (pyfloat env (hd row))) ?rows)"
    by simp
  then have "sorted_wrt (<) (subscript table ''altitude'') \<longleftrightarrow>
             sorted_wrt (<) (map (\<lambda>row. the (pyfloat env (hd row))) ?rows)"
    unfolding alt by (simp only: sorted_wrt_scaled)
  then show ?thesis using alt by blast
qed

lemma sample_extract:
  "extract_iri_profile_data sample_env [''p.txt'' \<mapsto> sample_report [row_100, row_200]] ''p.txt''
     = Inr (Some sample_table)"
  by code_simp

text \<open>A report with the rows 100 km and 200 km.\<close>

theorem altitude_column_witness:
  "extract_iri_profile_data sample_env [''p.txt'' \<mapsto> sample_report [row_100, row_200]] ''p.txt''
     = Inr (Some sample_table)
   \<and> subscript sample_table ''altitude'' = [100000, 200000]
   \<and> map (\<lambda>row. the (pyfloat sample_env (hd row)) * 1000)
        (extracted_data sample_env (split_on (CHR 0x0A) (sample_report [row_100, row_200]))) = [100000, 200000]"
proof -
  have f: "[''p.txt'' \<mapsto> sample_report [row_100, row_200]] ''p.txt'' = Some (sample_report [row_100, row_200])"
    by simp
  have s: "subscript sample_table ''altitude'' = [100000, 200000]"
    by (simp add: subscript_def sample_table_def)
  from altitude_column[OF f sample_extract] s sample_extract show ?thesis by simp
qed

text \<open>
  Claim C3 as stated fails: a report whose rows come at 200 km, 100 km and 100 km again is
  returned as a table with the altitude column 200000, 100000, 100000.
\<close>

theorem altitude_column_counterexample:
  "extract_iri_profile_data sample_env [''p.txt'' \<mapsto> sample_report [row_200, row_100, row_100]] ''p.txt''
     = Inr (Some \<lparr>time_str = ''2012-02-11 10:00:00'', time_unix = 0,
          columns =
            [(''altitude'', [200000, 100000, 100000]),
             (''Ne'', [2000000000, 1000000000, 1000000000]), (''Ne/NmF2'', [1, 1 / 2, 1 / 2]),
             (''Tn'', [210, 200, 200]), (''Ti'', [310, 300, 300]),
             (''Te'', [410, 400, 400]), (''O+'', [123 / 10, 90, 90]),
             (''N+'', [0, 0, 0]), (''H+'', [0, 0, 0]), (''He+'', [0, 0, 0]),
             (''O2+'', [4, 5, 5]), (''NO+'', [6, 5, 5]),
             (''Clust'', [- 10000000000000000, - 10000000000000000, - 10000000000000000]),
             (''TEC'', [25000000000000000, 15000000000000000, 15000000000000000]),
             (''t/%'', [400000000000000000, 300000000000000000, 300000000000000000])]\<rparr>)
   \<and> \<not> sorted_wrt (<) [200000, 100000, 100000 :: real]"
proof -
  have "extract_iri_profile_data sample_env [''p.txt'' \<mapsto> sample_report [row_200, row_100, row_100]] ''p.txt''
     = Inr (Some \<lparr>time_str = ''2012-02-11 10:00:00'', time_unix = 0,
          columns =
            [(''altitude'', [200000, 100000, 100000]),
             (''Ne'', [2000000000, 1000000000, 1000000000]), (''Ne/NmF2'', [1, 1 / 2, 1 / 2]),
             (''Tn'', [210, 200, 200]), (''Ti'', [310, 300, 300]),
             (''Te'', [410, 400, 400]), (''O+'', [123 / 10, 90, 90]),
             (''N+'', [0, 0, 0]), (''H+'', [0, 0, 0]), (''He+'', [0, 0, 0]),
             (''O2+'', [4, 5, 5]), (''NO+'', [6, 5, 5]),
             (''Clust'', [- 10000000000000000, - 10000000000000000, - 10000000000000000]),
             (''TEC'', [25000000000000000, 15000000000000000, 15000000000000000]),
             (''t/%'', [400000000000000000, 300000000000000000, 300000000000000000])]\<rparr>)"
    by code_simp
  then show ?thesis by simp
qed

text \<open>
  Claim C10. Let the file exist, be named \<open>txt\<close> and carry a resolvable time header, and let
  the accepted data lines be non-empty. If one of their tokens is not a number, or they differ
  in their number of tokens, the parser raises ValueError; if, these apart, every line has
  fewer than 15 tokens, it raises IndexError. In no such case does it return a table or None.
\<close>

theorem extract_raises:
  assumes "fs filepath = Some file_content" and "endswith filepath ''txt''"
      and "header_time env (split_on (CHR 0x0A) file_content) = Inr (Some ts)"
      and "extracted_data env (split_on (CHR 0x0A) file_content) = rows" and "rows \<noteq> []"
      and "unreadable env rows \<or> ragged rows \<or> (\<forall>r \<in> set rows. length r < 15)"
  shows "extract_iri_profile_data env fs filepath =
           Inl (if unreadable env rows \<or> ragged rows then ValueError else IndexError)"
proof -
  have short: "length (hd rows) < 15" if "\<forall>r \<in> set rows. length r < 15"
    using that assms(5) by (cases rows) simp_all
  have "extract_iri_profile_data env fs filepath = build_profile env ts rows"
    using assms(1) assms(2) assms(3) assms(4) by (rule extract_unfold)
  then show ?thesis
    unfolding build_profile_eq[OF assms(5)] using assms(6) short by auto
qed

text \<open>
  Three reports: a row with the token \<open>****\<close>, rows of 15 and 16 tokens, a single row of 10
  tokens.
\<close>

theorem extract_raises_witness:
  "extract_iri_profile_data sample_env [''p.txt'' \<mapsto> sample_report [row_stars]] ''p.txt'' = Inl ValueError
   \<and> extract_iri_profile_data sample_env [''p.txt'' \<mapsto> sample_report [row_200, row_long]] ''p.txt'' = Inl ValueError
   \<and> extract_iri_profile_data sample_env [''p.txt'' \<mapsto> sample_report [row_short]] ''p.txt'' = Inl IndexError"
proof -
  have ext: "endswith ''p.txt'' ''txt''" by (simp add: endswith_def)
  have f: "\<And>t. [''p.txt'' \<mapsto> t] ''p.txt'' = Some t" by simp
  have h1: "header_time sample_env (split_on (CHR 0x0A) (sample_report [row_stars])) = Inr (Some ''2012-02-11 10:00:00'')"
    by code_simp
  have r1: "extracted_data sample_env (split_on (CHR 0x0A) (sample_report [row_stars])) =
              [[''100.0'', ''1000'', ''0.5'', ''200'', ''300'', ''400'', ''900'', ''0'', ''0'', ''0'', ''50'', ''50'',
                ''-1'', ''****'', ''30'']]"
    by code_simp
  have u1: "unreadable sample_env
              [[''100.0'', ''1000'', ''0.5'', ''200'', ''300'', ''400'', ''900'', ''0'', ''0'', ''0'', ''50'', ''50'',
                ''-1'', ''****'', ''30'']]"
    by code_simp
  have a: "extract_iri_profile_data sample_env [''p.txt'' \<mapsto> sample_report [row_stars]] ''p.txt'' = Inl ValueError"
    using extract_raises[where fs = "[''p.txt'' \<mapsto> sample_report [row_stars]]" and filepath = "''p.txt''",
            OF f ext h1 r1] u1 by simp
  have h2: "header_time sample_env (split_on (CHR 0x0A) (sample_report [row_200, row_long])) = Inr (Some ''2012-02-11 10:00:00'')"
    by code_simp
  have r2: "extracted_data sample_env (split_on (CHR 0x0A) (sample_report [row_200, row_long])) =
              [[''200.0'', ''2000'', ''1.0'', ''210'', ''310'', ''410'', ''123'', ''0'', ''0'', ''0'', ''40'', ''60'',
                ''-1'', ''2.5'', ''40''],
               [''200.0'', ''2000'', ''1.0'', ''210'', ''310'', ''410'', ''123'', ''0'', ''0'', ''0'', ''40'', ''60'',
                ''-1'', ''2.5'', ''40'', ''7'']]"
    by code_simp
  have u2: "ragged
              [[''200.0'', ''2000'', ''1.0'', ''210'', ''310'', ''410'', ''123'', ''0'', ''0'', ''0'', ''40'', ''60'',
                ''-1'', ''2.5'', ''40''],
               [''200.0'', ''2000'', ''1.0'', ''210'', ''310'', ''410'', ''123'', ''0'', ''0'', ''0'', ''40'', ''60'',
                ''-1'', ''2.5'', ''40'', ''7'']]"
    by (simp add: ragged_def)
  have b: "extract_iri_profile_data sample_env [''p.txt'' \<mapsto> sample_report [row_200, row_long]] ''p.txt'' = Inl ValueError"
    using extract_raises[where fs = "[''p.txt'' \<mapsto> sample_report [row_200, row_long]]" and filepath = "''p.txt''",
            OF f ext h2 r2] u2 by simp
  have h3: "header_time sample_env (split_on (CHR 0x0A) (sample_report [row_short])) = Inr (Some ''2012-02-11 10:00:00'')"
    by code_simp
  have r3: "extracted_data sample_env (split_on (CHR 0x0A) (sample_report [row_short])) =
              [[''100.0'', ''1000'', ''0.5'', ''200'', ''300'', ''400'', ''900'', ''0'', ''0'', ''0'']]"
    by code_simp
  have u3: "\<not> unreadable sample_env [[''100.0'', ''1000'', ''0.5'', ''200'', ''300'', ''400'', ''900'', ''0'', ''0'', ''0'']]"
           "\<not> ragged [[''100.0'', ''1000'', ''0.5'', ''200'', ''300'', ''400'', ''900'', ''0'', ''0'', ''0'']]"
    by code_simp+
  have c: "extract_iri_profile_data sample_env [''p.txt'' \<mapsto> sample_report [row_short]] ''p.txt'' = Inl IndexError"
    using extract_raises[where fs = "[''p.txt'' \<mapsto> sample_report [row_short]]" and filepath = "''p.txt''",
            OF f ext h3 r3] u3 by simp
  show ?thesis using a b c by simp
qed


section \<open>Properties of the aggregator\<close>

lemma getdata_success:
  assumes "getdata env tr remote times' rmlatmlt res_alt verbose w = (Inr (Some rows), w')"
  shows "\<exists>w1 w2. os_remove output_filename_tmp w1 = (Inr (), w2)
                \<and> w' = emit (Warned ''Deleted temporal file'') w2"
  using assms
  by (auto simp: getdata_def split: sum.splits bool.splits prod.splits option.splits if_splits)

lemma os_remove_done:
  "os_remove p w1 = (Inr (), w2) \<Longrightarrow> files w2 p = None \<and> trace w2 = trace w1 @ [Removed p]"
  by (auto simp: os_remove_def emit_def split: if_splits)

text \<open>
  Claim C1, as the code has it. When the lengths of the times and of the coordinate array
  differ, \<open>getdata\<close> reports the error and returns None with the world otherwise untouched:
  no request, no removal. When \<open>getdata\<close> returns a table, the scratch file has been removed
  after the loop: the file is gone and the removal and its message are the last two events.
\<close>

theorem getdata_cleanup:
  "(len_nd rmlatmlt = Inr n \<and> length times' \<noteq> n \<longrightarrow>
      getdata env tr remote times' rmlatmlt res_alt verbose w =
        (Inr None, emit (Warned ''The lengths of times and rmlatmlt must be same'') w))
   \<and> (getdata env tr remote times' rmlatmlt res_alt verbose w = (Inr (Some rows), w') \<longrightarrow>
        files w' output_filename_tmp = None
      \<and> (\<exists>es. trace w' = es @ [Removed output_filename_tmp, Warned ''Deleted temporal file'']))"
proof (intro conjI impI)
  assume "len_nd rmlatmlt = Inr n \<and> length times' \<noteq> n"
  then show "getdata env tr remote times' rmlatmlt res_alt verbose w =
        (Inr None, emit (Warned ''The lengths of times and rmlatmlt must be same'') w)"
    by (simp add: getdata_def)
next
  assume g: "getdata env tr remote times' rmlatmlt res_alt verbose w = (Inr (Some rows), w')"
  from getdata_success[OF g] obtain w1 w2 where
    r: "os_remove output_filename_tmp w1 = (Inr (), w2)"
    and w': "w' = emit (Warned ''Deleted temporal file'') w2" by blast
  from os_remove_done[OF r] have d: "files w2 output_filename_tmp = None"
    "trace w2 = trace w1 @ [Removed output_filename_tmp]" by simp_all
  show "files w' output_filename_tmp = None" using d(1) by (simp add: w' emit_def)
  show "\<exists>es. trace w' = es @ [Removed output_filename_tmp, Warned ''Deleted temporal file'']"
    using d(2) by (simp add: w' emit_def)
qed

lemma run_one_step:
  "observe (getdata sample_env sample_transform (\<lambda>_. report_session) [0] one_by_three 50 False fresh) =
     (Inr (Some [\<lparr>s_time = 0, s_altitude = 120000, s_values = [1000000000, 90, 0, 0, 0, 5, 5]\<rparr>]),
      [Submit 60, Launched, Filled ''lat'' (Num 35), Filled ''lon'' (Num 135), Filled ''start'' (Num 0),
       Filled ''stop'' (Num 2000), Filled ''step'' (Num 50), Filled ''datetime'' (Stamp noon),
       VersionClicked, TimeTypeSelected, CoordTypeSelected ''Geomagnetic'', Clicked, Slept 2,
       Fetched ''raw.txt'', Quit, Removed output_filename_tmp, Warned ''Deleted temporal file''],
      None)"
  by code_simp

lemma run_mismatch:
  "observe (getdata sample_env sample_transform (\<lambda>_. report_session) [0, 1] one_by_three 50 False stale) =
     (Inr None, [Warned ''The lengths of times and rmlatmlt must be same''], Some ''left over'')"
  by code_simp

lemma run_second_fails:
  "observe (getdata sample_env sample_transform (\<lambda>k. if k = 0 then report_session else dead_session)
              [0, 1] two_by_three 50 False fresh) =
     (Inr None,
      [Submit 60, Launched, Filled ''lat'' (Num 35), Filled ''lon'' (Num 135), Filled ''start'' (Num 0),
       Filled ''stop'' (Num 2000), Filled ''step'' (Num 50), Filled ''datetime'' (Stamp noon),
       VersionClicked, TimeTypeSelected, CoordTypeSelected ''Geomagnetic'', Clicked, Slept 2,
       Fetched ''raw.txt'', Quit, Submit 60, Slept 5, Submit 60, Slept 10, Submit 60,
       Warned ''run_iri_profile failed''],
      Some (sample_report [row_100, row_200]))"
  by code_simp

lemma run_two_columns:
  "observe (getdata sample_env sample_transform (\<lambda>_. report_session) [0] one_by_two 50 False fresh) =
     (Inl IndexError, [], None)"
  by code_simp

lemma run_four_columns:
  "observe (getdata sample_env sample_transform (\<lambda>_. report_session) [0] one_by_four 50 False fresh) =
     (Inr (Some [\<lparr>s_time = 0, s_altitude = 120000, s_values = [1000000000, 90, 0, 0, 0, 5, 5]\<rparr>]),
      [Submit 60, Launched, Filled ''lat'' (Num 35), Filled ''lon'' (Num 135), Filled ''start'' (Num 0),
       Filled ''stop'' (Num 2000), Filled ''step'' (Num 50), Filled ''datetime'' (Stamp noon),
       VersionClicked, TimeTypeSelected, CoordTypeSelected ''Geomagnetic'', Clicked, Slept 2,
       Fetched ''raw.txt'', Quit, Removed output_filename_tmp, Warned ''Deleted temporal file''],
      None)"
  by code_simp

lemma run_rank_one:
  "observe (getdata sample_env sample_transform (\<lambda>_. report_session) [0, 1, 2] flat_three 50 False fresh) =
     (Inl IndexError, [], None)"
  by code_simp

lemma run_unparsed:
  "observe (getdata sample_env sample_transform (\<lambda>_. live_session) [0] one_by_three 50 False fresh) =
     (Inl TypeError,
      [Submit 60, Launched, Filled ''lat'' (Num 35), Filled ''lon'' (Num 135), Filled ''start'' (Num 0),
       Filled ''stop'' (Num 2000), Filled ''step'' (Num 50), Filled ''datetime'' (Stamp noon),
       VersionClicked, TimeTypeSelected, CoordTypeSelected ''Geomagnetic'', Clicked, Slept 2,
       Fetched ''raw.txt'', Quit],
      Some ''body'')"
  by code_simp

lemma parse_body: "extract_iri_profile_data sample_env [output_filename_tmp \<mapsto> ''body''] output_filename_tmp = Inr None"
  by code_simp

text \<open>
  One valid timestep answered with a two-row report; and two times against one coordinate
  row.
\<close>

theorem getdata_cleanup_witness:
  "fst (getdata sample_env sample_transform (\<lambda>_. report_session) [0] one_by_three 50 False fresh) =
     Inr (Some [\<lparr>s_time = 0, s_altitude = 120000, s_values = [1000000000, 90, 0, 0, 0, 5, 5]\<rparr>])
   \<and> files (snd (getdata sample_env sample_transform (\<lambda>_. report_session) [0] one_by_three 50 False fresh))
         output_filename_tmp = None
   \<and> (\<exists>es. trace (snd (getdata sample_env sample_transform (\<lambda>_. report_session) [0] one_by_three 50 False fresh))
            = es @ [Removed output_filename_tmp, Warned ''Deleted temporal file''])
   \<and> getdata sample_env sample_transform (\<lambda>_. report_session) [0, 1] one_by_three 50 False stale =
         (Inr None, emit (Warned ''The lengths of times and rmlatmlt must be same'') stale)"
proof -
  let ?run = "getdata sample_env sample_transform (\<lambda>_. report_session) [0] one_by_three 50 False fresh"
  have a: "fst ?run = Inr (Some [\<lparr>s_time = 0, s_altitude = 120000, s_values = [1000000000, 90, 0, 0, 0, 5, 5]\<rparr>])"
    using run_one_step by (simp add: observe_def)
  then have e: "?run = (Inr (Some [\<lparr>s_time = 0, s_altitude = 120000, s_values = [1000000000, 90, 0, 0, 0, 5, 5]\<rparr>]),
                        snd ?run)"
    by (metis prod.collapse)
  have b: "files (snd ?run) output_filename_tmp = None
       \<and> (\<exists>es. trace (snd ?run) = es @ [Removed output_filename_tmp, Warned ''Deleted temporal file''])"
    using getdata_cleanup[THEN conjunct2, THEN mp, OF e] .
  have m: "len_nd one_by_three = Inr 1 \<and> length [0, 1 :: real] \<noteq> 1"
    by (simp add: len_nd_def one_by_three_def)
  have c: "getdata sample_env sample_transform (\<lambda>_. report_session) [0, 1] one_by_three 50 False stale =
         (Inr None, emit (Warned ''The lengths of times and rmlatmlt must be same'') stale)"
    using getdata_cleanup[THEN conjunct1, THEN mp, OF m] .
  show ?thesis using a b c by blast
qed

text \<open>
  Claim C1 as stated fails. With a scratch file left on disk and mismatched lengths the call
  returns None and the file is still there, no removal having been made. With two timesteps of
  which the first succeeds and the second fails in all three attempts, the call returns None
  and the scratch file written by the first timestep is still there.
\<close>

theorem getdata_cleanup_counterexample:
  "observe (getdata sample_env sample_transform (\<lambda>_. report_session) [0, 1] one_by_three 50 False stale) =
     (Inr None, [Warned ''The lengths of times and rmlatmlt must be same''], Some ''left over'')
   \<and> observe (getdata sample_env sample_transform (\<lambda>k. if k = 0 then report_session else dead_session)
              [0, 1] two_by_three 50 False fresh) =
     (Inr None,
      [Submit 60, Launched, Filled ''lat'' (Num 35), Filled ''lon'' (Num 135), Filled ''start'' (Num 0),
       Filled ''stop'' (Num 2000), Filled ''step'' (Num 50), Filled ''datetime'' (Stamp noon),
       VersionClicked, TimeTypeSelected, CoordTypeSelected ''Geomagnetic'', Clicked, Slept 2,
       Fetched ''raw.txt'', Quit, Submit 60, Slept 5, Submit 60, Slept 10, Submit 60,
       Warned ''run_iri_profile failed''],
      Some (sample_report [row_100, row_200]))"
  using run_mismatch run_second_fails by simp

text \<open>
  Claim C6. The shape test of line 35 is false for every rank-2 array, whatever its number of
  columns. At three coordinate arrays whose shape is not (n, 3), each of the length of the
  times: one row of two columns passes the shape test and the slice of the third column
  raises IndexError. A rank-1 array of three elements raises IndexError inside the shape test
  itself. One row of four columns passes the test, the remote request is made and a sample is
  returned; no shape error is reported in any of the three.
\<close>

theorem getdata_shape_check:
  "(length (shape rmlatmlt) = 2 \<longrightarrow> shape_error rmlatmlt = Inr False)
   \<and> shape one_by_two = [1, 2]
   \<and> observe (getdata sample_env sample_transform (\<lambda>_. report_session) [0] one_by_two 50 False fresh) =
       (Inl IndexError, [], None)
   \<and> shape flat_three = [3]
   \<and> observe (getdata sample_env sample_transform (\<lambda>_. report_session) [0, 1, 2] flat_three 50 False fresh) =
       (Inl IndexError, [], None)
   \<and> shape one_by_four = [1, 4]
   \<and> observe (getdata sample_env sample_transform (\<lambda>_. report_session) [0] one_by_four 50 False fresh) =
       (Inr (Some [\<lparr>s_time = 0, s_altitude = 120000, s_values = [1000000000, 90, 0, 0, 0, 5, 5]\<rparr>]),
        [Submit 60, Launched, Filled ''lat'' (Num 35), Filled ''lon'' (Num 135), Filled ''start'' (Num 0),
         Filled ''stop'' (Num 2000), Filled ''step'' (Num 50), Filled ''datetime'' (Stamp noon),
         VersionClicked, TimeTypeSelected, CoordTypeSelected ''Geomagnetic'', Clicked, Slept 2,
         Fetched ''raw.txt'', Quit, Removed output_filename_tmp, Warned ''Deleted temporal file''],
        None)"
  using run_two_columns run_rank_one run_four_columns
  by (simp add: one_by_two_def flat_three_def one_by_four_def shape_error_def)

text \<open>The shape test at one row of four columns.\<close>

theorem getdata_shape_check_witness:
  "length (shape one_by_four) = 2 \<and> shape_error one_by_four = Inr False"
  using getdata_shape_check[of one_by_four] by (simp add: one_by_four_def)

text \<open>
  Claim C7. A timestep whose request returns 0 and whose saved file the parser answers with
  None ends the loop with a raised TypeError, from subscripting None, in the world the request
  left. At one timestep whose request saves the one-line text \<open>body\<close>: the parser returns
  None for that file and \<open>getdata\<close> raises TypeError after a single request; it does not
  return a reported failure.
\<close>

theorem getdata_parse_none:
  "(i < length (c_lon c) \<and> i < length (c_lat c) \<and> i < length (c_alt c) \<and> c_alt c ! i = Some alt_i
      \<and> run_iri_profile (c_remote c)
            (step_query (unix_to_datetime (c_env c) (c_times c ! i)) (c_lon c ! i) (c_lat c ! i)
               (c_res_alt c) (c_info c)) w = (0, w1)
      \<and> extract_iri_profile_data (c_env c) (files w1) output_filename_tmp = Inr None
    \<longrightarrow> timesteps c (i # rest) acc w = (Inl TypeError, w1))
   \<and> extract_iri_profile_data sample_env [output_filename_tmp \<mapsto> ''body''] output_filename_tmp = Inr None
   \<and> observe (getdata sample_env sample_transform (\<lambda>_. live_session) [0] one_by_three 50 False fresh) =
       (Inl TypeError,
        [Submit 60, Launched, Filled ''lat'' (Num 35), Filled ''lon'' (Num 135), Filled ''start'' (Num 0),
         Filled ''stop'' (Num 2000), Filled ''step'' (Num 50), Filled ''datetime'' (Stamp noon),
         VersionClicked, TimeTypeSelected, CoordTypeSelected ''Geomagnetic'', Clicked, Slept 2,
         Fetched ''raw.txt'', Quit],
        Some ''body'')"
  using parse_body run_unparsed by simp

lemma step_unparsed:
  "observe (case run_iri_profile (\<lambda>_. live_session) (step_query noon 135 35 50 False) fresh of
              (ret, w1) \<Rightarrow> (Inr (Some []), w1)) =
     (Inr (Some []),
      [Submit 60, Launched, Filled ''lat'' (Num 35), Filled ''lon'' (Num 135), Filled ''start'' (Num 0),
       Filled ''stop'' (Num 2000), Filled ''step'' (Num 50), Filled ''datetime'' (Stamp noon),
       VersionClicked, TimeTypeSelected, CoordTypeSelected ''Geomagnetic'', Clicked, Slept 2,
       Fetched ''raw.txt'', Quit],
      Some ''body'')
   \<and> fst (run_iri_profile (\<lambda>_. live_session) (step_query noon 135 35 50 False) fresh) = 0
   \<and> extract_iri_profile_data sample_env
         (files (snd (run_iri_profile (\<lambda>_. live_session) (step_query noon 135 35 50 False) fresh)))
         output_filename_tmp = Inr None"
  by code_simp

text \<open>The loop at one timestep whose request saves the one-line text.\<close>

theorem getdata_parse_none_witness:
  "timesteps sample_ctx [0] [] fresh =
     (Inl TypeError, snd (run_iri_profile (\<lambda>_. live_session) (step_query noon 135 35 50 False) fresh))
   \<and> files (snd (run_iri_profile (\<lambda>_. live_session) (step_query noon 135 35 50 False) fresh))
         output_filename_tmp = Some ''body''"
proof -
  let ?r = "run_iri_profile (\<lambda>_. live_session) (step_query noon 135 35 50 False) fresh"
  have r: "?r = (0, snd ?r)" using step_unparsed by (metis prod.collapse)
  have h: "0 < length (c_lon sample_ctx) \<and> 0 < length (c_lat sample_ctx) \<and> 0 < length (c_alt sample_ctx)
      \<and> c_alt sample_ctx ! 0 = Some 120000
      \<and> run_iri_profile (c_remote sample_ctx)
            (step_query (unix_to_datetime (c_env sample_ctx) (c_times sample_ctx ! 0)) (c_lon sample_ctx ! 0)
               (c_lat sample_ctx ! 0) (c_res_alt sample_ctx) (c_info sample_ctx)) fresh = (0, snd ?r)
      \<and> extract_iri_profile_data (c_env sample_ctx) (files (snd ?r)) output_filename_tmp = Inr None"
    using r step_unparsed by (simp add: sample_ctx_def sample_env_def)
  have f: "files (snd ?r) output_filename_tmp = Some ''body''"
    using step_unparsed by (simp add: observe_def split: prod.splits)
  show ?thesis
    using getdata_parse_none[THEN conjunct1, THEN mp, OF h] f by simp
qed

end
